theory Spec2Isabelle
  imports
    Complex_Main
    "HOL-Library.Char_ord"
    "HOL-Library.List_Lexorder"
    "HOL-Library.Multiset"
    "HOL-Library.AList"
begin

unbundle bit_operations_syntax

section \<open>Investment tracker backend: row store service and aggregation\<close>

text \<open>
  The development embeds \<^verbatim>\<open>services/sheetsService.ts\<close>, the summary handler of
  \<^verbatim>\<open>routes/index.ts\<close> and the request schemas of \<^verbatim>\<open>validation/schemas.ts\<close>.

  Conventions of the embedding:
  \<^item> a finite JavaScript number is a \<^typ>\<open>real\<close>, the decimal the specification speaks
    of: arithmetic is exact, it neither rounds nor overflows. Where the code can produce
    NaN or an infinity without arithmetic (reading a cell, dividing something that is not
    a number) the value is a \<open>jsnumber\<close>;
  \<^item> a string is the list of its UTF-8 bytes;
  \<^item> a plain object used as a dictionary is the map of its own properties, read through
    the properties it inherits from \<^verbatim>\<open>Object.prototype\<close>;
  \<^item> \<^verbatim>\<open>String.localeCompare\<close> depends on the host's collation and is a parameter;
  \<^item> \<^verbatim>\<open>Array.sort\<close> with a comparator is a stable sort; it is written as an
    insertion sort;
  \<^item> record fields carry a prefix naming their record (\<open>h_\<close> Holding, \<open>i_\<close>
    IdealAllocation, \<open>g_\<close> MonthlyGrowth, \<open>s_\<close> Snapshot, \<open>c_\<close> create
    request, \<open>u_\<close> update request), since several records share field names.
\<close>

subsection \<open>Domain records\<close>

text \<open>A JavaScript number that need not be finite.\<close>

datatype jsnumber = NaN | Num real | Infinity | NegInfinity

record Holding =
  h_id :: string
  h_symbol :: string
  h_name :: string
  h_sector :: string
  h_qty :: real
  h_avg_price :: real
  h_current_price :: real
  h_value :: real
  h_rsi :: "jsnumber option"
  h_allocation_pct :: real
  h_notes :: "string option"
  h_updated_at :: string

record IdealAllocation =
  i_sector :: string
  i_target_pct :: real

record MonthlyGrowth =
  g_month :: string
  g_account :: string
  g_pnl :: real

record Snapshot =
  s_date :: string
  s_sector :: string
  s_actual_pct :: jsnumber
  s_target_pct :: real
  s_variance :: jsnumber
  s_total_value :: real

record Summary =
  total_invested :: real
  current_net_worth :: real
  unrealized_gain_loss :: real
  unrealized_pct :: real
  allocation_variance :: "string \<rightharpoonup> jsnumber"
  monthly_trend :: "MonthlyGrowth list"
  ytd_growth :: real

subsection \<open>Host functions used by the aggregation\<close>

text \<open>
  \<^verbatim>\<open>xs.sort(cmp)\<close>: \<open>a\<close> stays before \<open>b\<close> unless \<open>cmp a b\<close> is positive,
  so elements that compare equal keep their order.
\<close>

fun insertWith :: "('a \<Rightarrow> 'a \<Rightarrow> int) \<Rightarrow> 'a \<Rightarrow> 'a list \<Rightarrow> 'a list" where
  "insertWith cmp x [] = [x]"
| "insertWith cmp x (y # ys) =
     (if cmp x y \<le> 0 then x # y # ys else y # insertWith cmp x ys)"

fun sortWith :: "('a \<Rightarrow> 'a \<Rightarrow> int) \<Rightarrow> 'a list \<Rightarrow> 'a list" where
  "sortWith cmp [] = []"
| "sortWith cmp (x # xs) = insertWith cmp x (sortWith cmp xs)"

text \<open>\<^verbatim>\<open>s.startsWith(p)\<close>\<close>

definition startsWith :: "string \<Rightarrow> string \<Rightarrow> bool" where
  "startsWith s p = (take (length p) s = p)"

subsection \<open>Plain objects as dictionaries\<close>

text \<open>
  The names every object created by \<^verbatim>\<open>{}\<close> inherits from
  \<^verbatim>\<open>Object.prototype\<close>. All are functions, except \<^verbatim>\<open>__proto__\<close>, an accessor
  that reads as the prototype object.
\<close>

definition inheritedNames :: "string list" where
  "inheritedNames =
     [''constructor'', ''__defineGetter__'', ''__defineSetter__'', ''hasOwnProperty'',
      ''__lookupGetter__'', ''__lookupSetter__'', ''isPrototypeOf'', ''propertyIsEnumerable'',
      ''toString'', ''valueOf'', ''__proto__'', ''toLocaleString'']"

text \<open>
  What reading a property of the sector totals can give: a number; a function or object
  of the prototype; or the string that \<^verbatim>\<open>+\<close> makes when its left operand is not a
  number (the text of that operand followed by the digits of the right one: it is not
  empty and does not read as a number).
\<close>

datatype jsvalue = JNum real | JObj | JStr

text \<open>
  \<^verbatim>\<open>obj[k]\<close>: an own property, else an inherited one, else \<^verbatim>\<open>undefined\<close>
  (\<open>None\<close>). \<^verbatim>\<open>__proto__\<close> always reads as the prototype.
\<close>

definition getProp :: "(string \<rightharpoonup> jsvalue) \<Rightarrow> string \<Rightarrow> jsvalue option" where
  "getProp obj k =
     (if k = ''__proto__'' then Some JObj
      else case obj k of
             Some v \<Rightarrow> Some v
           | None \<Rightarrow> (if k \<in> set inheritedNames then Some JObj else None))"

text \<open>
  \<^verbatim>\<open>obj[k] = v\<close> for a number or a string \<open>v\<close>: an own property is made or
  overwritten, except under the name \<^verbatim>\<open>__proto__\<close>, whose setter ignores a value that
  is not an object.
\<close>

definition setProp :: "(string \<rightharpoonup> 'v) \<Rightarrow> string \<Rightarrow> 'v \<Rightarrow> (string \<rightharpoonup> 'v)" where
  "setProp obj k v = (if k = ''__proto__'' then obj else obj(k \<mapsto> v))"

subsection \<open>Sector totals\<close>

text \<open>\<^verbatim>\<open>x || 0\<close>: \<^verbatim>\<open>undefined\<close> and the number 0 give 0, anything else itself.\<close>

definition orZero :: "jsvalue option \<Rightarrow> jsvalue" where
  "orZero v = (case v of None \<Rightarrow> JNum 0 | Some x \<Rightarrow> x)"

text \<open>\<^verbatim>\<open>x + n\<close> for a number \<open>n\<close>: a sum of numbers, else a concatenation.\<close>

definition plusNumber :: "jsvalue \<Rightarrow> real \<Rightarrow> jsvalue" where
  "plusNumber x n = (case x of JNum a \<Rightarrow> JNum (a + n) | JObj \<Rightarrow> JStr | JStr \<Rightarrow> JStr)"

text \<open>
  \<^verbatim>\<open>holdings.reduce((acc, h) => { acc[h.sector] = (acc[h.sector] || 0) + h.value;
  return acc; }, {})\<close>
\<close>

definition addSector :: "(string \<rightharpoonup> jsvalue) \<Rightarrow> Holding \<Rightarrow> (string \<rightharpoonup> jsvalue)" where
  "addSector acc h =
     setProp acc (h_sector h) (plusNumber (orZero (getProp acc (h_sector h))) (h_value h))"

definition sectorTotals :: "Holding list \<Rightarrow> (string \<rightharpoonup> jsvalue)" where
  "sectorTotals holdings = foldl addSector Map.empty holdings"

text \<open>
  \<^verbatim>\<open>(x / d) * 100\<close> for a number \<open>d > 0\<close>: what is not a number converts to NaN.
\<close>

definition percentOf :: "jsvalue \<Rightarrow> real \<Rightarrow> jsnumber" where
  "percentOf x d = (case x of JNum a \<Rightarrow> Num ((a / d) * 100) | JObj \<Rightarrow> NaN | JStr \<Rightarrow> NaN)"

text \<open>
  \<^verbatim>\<open>const actualValue = sectorTotals[sector] || 0; const actualPct = totalValue > 0 ?
  (actualValue / totalValue) * 100 : 0\<close>
\<close>

definition actualPct :: "(string \<rightharpoonup> jsvalue) \<Rightarrow> real \<Rightarrow> string \<Rightarrow> jsnumber" where
  "actualPct totals totalValue sec =
     (let actualValue = orZero (getProp totals sec)
      in if totalValue > 0 then percentOf actualValue totalValue else Num 0)"

text \<open>\<^verbatim>\<open>x - t\<close> for a number \<open>t\<close>.\<close>

definition minusNumber :: "jsnumber \<Rightarrow> real \<Rightarrow> jsnumber" where
  "minusNumber x t =
     (case x of NaN \<Rightarrow> NaN | Num a \<Rightarrow> Num (a - t) | Infinity \<Rightarrow> Infinity
      | NegInfinity \<Rightarrow> NegInfinity)"

subsection \<open>Summary (GET /v1/summary)\<close>

definition allocationVariance ::
  "(string \<rightharpoonup> jsvalue) \<Rightarrow> real \<Rightarrow> IdealAllocation list \<Rightarrow> (string \<rightharpoonup> jsnumber)" where
  "allocationVariance totals netWorth ideals =
     foldl (\<lambda>m ideal.
              setProp m (i_sector ideal)
                (minusNumber (actualPct totals netWorth (i_sector ideal)) (i_target_pct ideal)))
       Map.empty ideals"

text \<open>
  \<^verbatim>\<open>monthlyGrowth.sort((a, b) => b.month.localeCompare(a.month)).slice(0, 12).reverse()\<close>,
  with the host's \<^verbatim>\<open>localeCompare\<close> as \<open>collate\<close>.
\<close>

definition sortedGrowth ::
  "(string \<Rightarrow> string \<Rightarrow> int) \<Rightarrow> MonthlyGrowth list \<Rightarrow> MonthlyGrowth list" where
  "sortedGrowth collate monthlyGrowth =
     rev (take 12 (sortWith (\<lambda>a b. collate (g_month b) (g_month a)) monthlyGrowth))"

definition summary ::
  "(string \<Rightarrow> string \<Rightarrow> int) \<Rightarrow> string \<Rightarrow> Holding list \<Rightarrow> IdealAllocation list
     \<Rightarrow> MonthlyGrowth list \<Rightarrow> Summary" where
  "summary collate currentYear holdings idealAllocations monthlyGrowth =
     (let totalInvested = foldl (\<lambda>sum h. sum + h_qty h * h_avg_price h) 0 holdings;
          currentNetWorth = foldl (\<lambda>sum h. sum + h_value h) 0 holdings;
          unrealizedGainLoss = currentNetWorth - totalInvested;
          unrealizedPct =
            (if totalInvested > 0 then (unrealizedGainLoss / totalInvested) * 100 else 0);
          ytdEntries = filter (\<lambda>entry. startsWith (g_month entry) currentYear) monthlyGrowth;
          ytdGrowth = foldl (\<lambda>sum entry. sum + g_pnl entry) 0 ytdEntries
      in \<lparr> total_invested = totalInvested,
           current_net_worth = currentNetWorth,
           unrealized_gain_loss = unrealizedGainLoss,
           unrealized_pct = unrealizedPct,
           allocation_variance =
             allocationVariance (sectorTotals holdings) currentNetWorth idealAllocations,
           monthly_trend = sortedGrowth collate monthlyGrowth,
           ytd_growth = ytdGrowth \<rparr>)"

subsection \<open>Snapshot records (the computation inside createSnapshot)\<close>

definition snapshotFor ::
  "string \<Rightarrow> (string \<rightharpoonup> jsvalue) \<Rightarrow> real \<Rightarrow> IdealAllocation \<Rightarrow> Snapshot" where
  "snapshotFor currentDate totals totalValue allocation =
     (let actualPct' = actualPct totals totalValue (i_sector allocation);
          variance = minusNumber actualPct' (i_target_pct allocation)
      in \<lparr> s_date = currentDate,
           s_sector = i_sector allocation,
           s_actual_pct = actualPct',
           s_target_pct = i_target_pct allocation,
           s_variance = variance,
           s_total_value = totalValue \<rparr>)"

text \<open>\<^verbatim>\<open>new Date().toISOString().split('T')[0]\<close>, from the clock's ISO string.\<close>

definition currentDateOf :: "string \<Rightarrow> string" where
  "currentDateOf now = takeWhile (\<lambda>c. c \<noteq> CHR ''T'') now"

definition computeSnapshots ::
  "string \<Rightarrow> Holding list \<Rightarrow> IdealAllocation list \<Rightarrow> Snapshot list" where
  "computeSnapshots now holdings idealAllocations =
     (let totalValue = foldl (\<lambda>sum h. sum + h_value h) 0 holdings;
          totals = sectorTotals holdings;
          currentDate = currentDateOf now
      in foldl (\<lambda>snapshots allocation.
                  snapshots @ [snapshotFor currentDate totals totalValue allocation])
           [] idealAllocations)"

section \<open>The row store service\<close>

subsection \<open>Cells, rows and the host\<close>

text \<open>
  A row is \<^verbatim>\<open>any[]\<close>: each cell is a number or a string, and a cell past the end of
  the row is \<^verbatim>\<open>undefined\<close> (\<open>None\<close>).
\<close>

datatype cell = CNum jsnumber | CStr string

type_synonym row = "cell list"

definition cellAt :: "row \<Rightarrow> nat \<Rightarrow> cell option" where
  "cellAt r i = (if i < length r then Some (r ! i) else None)"

text \<open>
  What the service takes from its host at each call: the clock
  (\<^verbatim>\<open>new Date().toISOString()\<close>), the outcomes of successive
  \<^verbatim>\<open>Math.random()\<close> calls, and the text a number stands for where the code lets a
  numeric cell pass as a string.
\<close>

record host =
  now :: string
  random :: "nat \<Rightarrow> real"
  numberText :: "jsnumber \<Rightarrow> string"

text \<open>
  Truthiness of a cell: \<^verbatim>\<open>undefined\<close>, \<^verbatim>\<open>''\<close>, \<^verbatim>\<open>0\<close> and NaN are falsy.
\<close>

definition truthy :: "cell option \<Rightarrow> bool" where
  "truthy c =
     (case c of
        None \<Rightarrow> False
      | Some (CStr s) \<Rightarrow> s \<noteq> []
      | Some (CNum x) \<Rightarrow> x \<noteq> NaN \<and> x \<noteq> Num 0)"

text \<open>\<^verbatim>\<open>row[i] || d\<close> where a string is expected.\<close>

definition textOr :: "host \<Rightarrow> cell option \<Rightarrow> string \<Rightarrow> string" where
  "textOr hst c d =
     (case c of
        None \<Rightarrow> d
      | Some (CStr s) \<Rightarrow> (if s = [] then d else s)
      | Some (CNum x) \<Rightarrow> (if x = NaN \<or> x = Num 0 then d else numberText hst x))"

subsection \<open>parseFloat\<close>

text \<open>
  The number of bytes of the white space or line terminator a string starts with, 0 when
  it starts with none: tab, line feed, vertical tab, form feed, carriage return, space,
  and in UTF-8 the characters U+00A0, U+1680, U+2000 to U+200A, U+2028, U+2029, U+202F,
  U+205F, U+3000 and U+FEFF.
\<close>

definition whitePrefix :: "string \<Rightarrow> nat" where
  "whitePrefix s =
     (if s \<noteq> [] \<and> hd s \<in> set [CHR 0x09, CHR 0x0A, CHR 0x0B, CHR 0x0C, CHR 0x0D, CHR 0x20]
      then 1
      else if take 2 s = [CHR 0xC2, CHR 0xA0] then 2
      else if take 3 s \<in> set [[CHR 0xE1, CHR 0x9A, CHR 0x80], [CHR 0xE2, CHR 0x80, CHR 0xA8],
                [CHR 0xE2, CHR 0x80, CHR 0xA9], [CHR 0xE2, CHR 0x80, CHR 0xAF],
                [CHR 0xE2, CHR 0x81, CHR 0x9F], [CHR 0xE3, CHR 0x80, CHR 0x80],
                [CHR 0xEF, CHR 0xBB, CHR 0xBF]]
      then 3
      else if take 2 s = [CHR 0xE2, CHR 0x80] \<and> length s \<ge> 3
              \<and> CHR 0x80 \<le> s ! 2 \<and> s ! 2 \<le> CHR 0x8A
      then 3
      else 0)"

text \<open>Trimming the start of a string; the fuel is the length of the string.\<close>

fun trimFuel :: "nat \<Rightarrow> string \<Rightarrow> string" where
  "trimFuel 0 s = s"
| "trimFuel (Suc n) s = (if whitePrefix s = 0 then s else trimFuel n (drop (whitePrefix s) s))"

definition trimStart :: "string \<Rightarrow> string" where
  "trimStart s = trimFuel (length s) s"

definition isDigit :: "char \<Rightarrow> bool" where
  "isDigit c = (CHR ''0'' \<le> c \<and> c \<le> CHR ''9'')"

definition digitsVal :: "string \<Rightarrow> nat" where
  "digitsVal ds = foldl (\<lambda>n c. 10 * n + (of_char c - of_char CHR ''0'')) 0 ds"

text \<open>The exponent part \<^verbatim>\<open>e[+-]digits\<close>; anything else is not part of the number.\<close>

definition exponentOf :: "string \<Rightarrow> int" where
  "exponentOf s =
     (case s of
        [] \<Rightarrow> 0
      | c # t \<Rightarrow>
          if c = CHR ''e'' \<or> c = CHR ''E'' then
            (let neg = (t \<noteq> [] \<and> hd t = CHR ''-'');
                 u = (if t \<noteq> [] \<and> (hd t = CHR ''-'' \<or> hd t = CHR ''+'') then tl t else t);
                 ds = takeWhile isDigit u
             in if ds = [] then 0
                else if neg then - int (digitsVal ds) else int (digitsVal ds))
          else 0)"

text \<open>
  The double nearest to a decimal is an infinity from \<open>2^1024 - 2^970\<close> on and zero up to
  \<open>2^-1075\<close>. In between the decimal is kept as it is.
\<close>

definition toDouble :: "real \<Rightarrow> jsnumber" where
  "toDouble x =
     (if x \<ge> 2 ^ 1024 - 2 ^ 970 then Infinity
      else if x \<le> - (2 ^ 1024 - 2 ^ 970) then NegInfinity
      else if \<bar>x\<bar> \<le> 1 / 2 ^ 1075 then Num 0
      else Num x)"

text \<open>
  \<^verbatim>\<open>parseFloat\<close> on a string: leading white space is skipped, then the longest prefix
  that is a decimal literal (a sign, then \<^verbatim>\<open>Infinity\<close> or digits with a fraction and
  an exponent) is read; when there is none, the result is NaN.
\<close>

definition parseFloatStr :: "string \<Rightarrow> jsnumber" where
  "parseFloatStr s =
     (let t = trimStart s;
          neg = (t \<noteq> [] \<and> hd t = CHR ''-'');
          u = (if t \<noteq> [] \<and> (hd t = CHR ''-'' \<or> hd t = CHR ''+'') then tl t else t);
          ip = takeWhile isDigit u;
          r1 = dropWhile isDigit u;
          hasDot = (r1 \<noteq> [] \<and> hd r1 = CHR ''.'');
          fp = (if hasDot then takeWhile isDigit (tl r1) else []);
          r2 = (if hasDot then dropWhile isDigit (tl r1) else r1)
      in if take 8 u = ''Infinity'' then (if neg then NegInfinity else Infinity)
         else if ip = [] \<and> fp = [] then NaN
         else
           (let mant = real (digitsVal ip) + real (digitsVal fp) / 10 ^ length fp;
                e = exponentOf r2;
                m = (if e < 0 then mant / 10 ^ nat (- e) else mant * 10 ^ nat e)
            in toDouble (if neg then - m else m)))"

text \<open>
  \<^verbatim>\<open>parseFloat(x)\<close> on a cell: a number reads as itself, \<^verbatim>\<open>undefined\<close> as NaN.
\<close>

definition parseFloat :: "cell option \<Rightarrow> jsnumber" where
  "parseFloat c =
     (case c of None \<Rightarrow> NaN | Some (CNum x) \<Rightarrow> x | Some (CStr s) \<Rightarrow> parseFloatStr s)"

text \<open>
  \<^verbatim>\<open>x || 0\<close> on a number, as a field of a holding: NaN and 0 give 0, a finite number
  itself. The numeric fields of a holding are reals: an infinity, which the code would
  keep, has no value among them, is given 0 here, and no statement below is about a field
  read from a cell that reads as an infinity.
\<close>

definition numOrZero :: "jsnumber \<Rightarrow> real" where
  "numOrZero x = (case x of NaN \<Rightarrow> 0 | Num r \<Rightarrow> r | Infinity \<Rightarrow> 0 | NegInfinity \<Rightarrow> 0)"

subsection \<open>Rows and holdings\<close>

definition parseHoldingFromRow :: "host \<Rightarrow> row \<Rightarrow> Holding" where
  "parseHoldingFromRow hst r =
     \<lparr> h_id = textOr hst (cellAt r 0) [],
       h_symbol = textOr hst (cellAt r 1) [],
       h_name = textOr hst (cellAt r 2) [],
       h_sector = textOr hst (cellAt r 3) [],
       h_qty = numOrZero (parseFloat (cellAt r 4)),
       h_avg_price = numOrZero (parseFloat (cellAt r 5)),
       h_current_price = numOrZero (parseFloat (cellAt r 6)),
       h_value = numOrZero (parseFloat (cellAt r 7)),
       h_rsi = (if truthy (cellAt r 8) then Some (parseFloat (cellAt r 8)) else None),
       h_allocation_pct = numOrZero (parseFloat (cellAt r 9)),
       h_notes = Some (textOr hst (cellAt r 10) []),
       h_updated_at = textOr hst (cellAt r 11) (now hst) \<rparr>"

text \<open>\<^verbatim>\<open>holding.rsi || ''\<close>: an absent rsi, NaN and 0 are written as the empty string.\<close>

definition rsiCell :: "jsnumber option \<Rightarrow> cell" where
  "rsiCell x =
     (case x of
        None \<Rightarrow> CStr []
      | Some v \<Rightarrow> (if v = NaN \<or> v = Num 0 then CStr [] else CNum v))"

text \<open>\<^verbatim>\<open>holding.notes || ''\<close>\<close>

definition notesCell :: "string option \<Rightarrow> cell" where
  "notesCell x = (case x of None \<Rightarrow> CStr [] | Some s \<Rightarrow> CStr s)"

definition holdingToRowValues :: "Holding \<Rightarrow> row" where
  "holdingToRowValues holding =
     [ CStr (h_id holding),
       CStr (h_symbol holding),
       CStr (h_name holding),
       CStr (h_sector holding),
       CNum (Num (h_qty holding)),
       CNum (Num (h_avg_price holding)),
       CNum (Num (h_current_price holding)),
       CNum (Num (h_value holding)),
       rsiCell (h_rsi holding),
       CNum (Num (h_allocation_pct holding)),
       notesCell (h_notes holding),
       CStr (h_updated_at holding) ]"

subsection \<open>generateUUID\<close>

definition hexDigit :: "nat \<Rightarrow> char" where
  "hexDigit v = ''0123456789abcdef'' ! v"

text \<open>\<^verbatim>\<open>v.toString(16)\<close> for a natural number.\<close>

fun toString16 :: "nat \<Rightarrow> string" where
  "toString16 v = (if v < 16 then [hexDigit v] else toString16 (v div 16) @ [hexDigit (v mod 16)])"

declare toString16.simps [simp del]

text \<open>
  The callback of \<^verbatim>\<open>replace\<close>: \<open>u\<close> is the outcome of \<^verbatim>\<open>Math.random()\<close>,
  a number in \<open>[0, 1)\<close>, and \<^verbatim>\<open>u * 16 | 0\<close> its sixteenth, truncated.
\<close>

definition uuidChar :: "char \<Rightarrow> real \<Rightarrow> string" where
  "uuidChar c u =
     (let r = nat \<lfloor>u * 16\<rfloor>;
          v = (if c = CHR ''x'' then r else ((r AND 0x3) OR 0x8))
      in toString16 v)"

text \<open>
  \<^verbatim>\<open>template.replace(/[xy]/g, f)\<close>: the matches are replaced from left to right, the
  \<open>n\<close>-th match drawing the \<open>n\<close>-th random number.
\<close>

fun replaceXY :: "(nat \<Rightarrow> real) \<Rightarrow> nat \<Rightarrow> string \<Rightarrow> string" where
  "replaceXY rnd n [] = []"
| "replaceXY rnd n (c # cs) =
     (if c = CHR ''x'' \<or> c = CHR ''y'' then uuidChar c (rnd n) @ replaceXY rnd (Suc n) cs
      else c # replaceXY rnd n cs)"

definition generateUUID :: "(nat \<Rightarrow> real) \<Rightarrow> string" where
  "generateUUID rnd = replaceXY rnd 0 ''xxxxxxxx-xxxx-4xxx-yxxx-xxxxxxxxxxxx''"

subsection \<open>Request schemas\<close>

record CreateHoldingRequest =
  c_symbol :: string
  c_name :: string
  c_sector :: string
  c_qty :: real
  c_avg_price :: real
  c_current_price :: real
  c_rsi :: "real option"
  c_allocation_pct :: real
  c_notes :: "string option"

text \<open>\<^verbatim>\<open>createHoldingSchema.partial()\<close>: every key may be left out.\<close>

record UpdateHoldingRequest =
  u_symbol :: "string option"
  u_name :: "string option"
  u_sector :: "string option"
  u_qty :: "real option"
  u_avg_price :: "real option"
  u_current_price :: "real option"
  u_rsi :: "real option"
  u_allocation_pct :: "real option"
  u_notes :: "string option"

definition createHoldingSchema :: "CreateHoldingRequest \<Rightarrow> bool" where
  "createHoldingSchema p =
     (1 \<le> length (c_symbol p) \<and> length (c_symbol p) \<le> 20 \<and>
      1 \<le> length (c_name p) \<and> length (c_name p) \<le> 100 \<and>
      1 \<le> length (c_sector p) \<and> length (c_sector p) \<le> 50 \<and>
      0 < c_qty p \<and> 0 < c_avg_price p \<and> 0 < c_current_price p \<and>
      (case c_rsi p of None \<Rightarrow> True | Some r \<Rightarrow> 0 \<le> r \<and> r \<le> 100) \<and>
      0 \<le> c_allocation_pct p \<and> c_allocation_pct p \<le> 100 \<and>
      (case c_notes p of None \<Rightarrow> True | Some n \<Rightarrow> length n \<le> 500))"

text \<open>
  A string against a pattern, character by character: \<open>x\<close> in the pattern stands for a
  lower-case hexadecimal digit, \<open>y\<close> for one of \<open>8 9 a b\<close>, \<open>h\<close> for a hexadecimal
  digit of either case, \<open>V\<close> for a version digit \<open>1\<close> to \<open>8\<close>, \<open>N\<close> for a variant
  digit \<open>8 9 a b A B\<close>; every other character stands for itself.
\<close>

definition charMatches :: "char \<Rightarrow> char \<Rightarrow> bool" where
  "charMatches p c =
     (if p = CHR ''x'' then c \<in> set ''0123456789abcdef''
      else if p = CHR ''y'' then c \<in> set ''89ab''
      else if p = CHR ''h'' then c \<in> set ''0123456789abcdefABCDEF''
      else if p = CHR ''V'' then c \<in> set ''12345678''
      else if p = CHR ''N'' then c \<in> set ''89abAB''
      else c = p)"

fun matchesPattern :: "string \<Rightarrow> string \<Rightarrow> bool" where
  "matchesPattern [] [] = True"
| "matchesPattern (p # ps) (c # cs) = (charMatches p c \<and> matchesPattern ps cs)"
| "matchesPattern _ _ = False"

text \<open>
  \<^verbatim>\<open>holdingIdSchema\<close> is \<^verbatim>\<open>z.string().uuid()\<close>. The validator belongs to the zod
  library; it is modelled by the strictest pattern its releases have used (version digit
  1 to 8, variant digit 8, 9, a or b in either case), so that an identifier accepted here
  is accepted by each of them.
\<close>

definition holdingIdSchema :: "string \<Rightarrow> bool" where
  "holdingIdSchema ident = matchesPattern ''hhhhhhhh-hhhh-Vhhh-Nhhh-hhhhhhhhhhhh'' ident"

subsection \<open>Service state\<close>

text \<open>
  The remote spreadsheet (the rows of each named range, header first), the in-memory
  \<^verbatim>\<open>holdingsRowMap\<close> (a \<^verbatim>\<open>Map\<close>, kept as an association list in insertion
  order), and the log of the calls made to the spreadsheet API. API calls always answer:
  a failing call makes the operation fail as a whole and is not part of the model.
\<close>

datatype range = Named string | RowOf string nat

datatype call =
    ValuesGet range
  | ValuesAppend range
  | ValuesUpdate range
  | BatchUpdateDelete nat nat
  | SpreadsheetsGet

record service =
  MF_STOCKS :: "row list"
  IDEAL_ALLOCATION :: "row list"
  SNAPSHOT :: "row list"
  holdingsRowMap :: "(cell \<times> nat) list"
  calls :: "call list"

datatype error =
    HoldingNotFound string
  | HoldingNotFoundInRow string nat

definition logCall :: "call \<Rightarrow> service \<Rightarrow> service" where
  "logCall c st = st\<lparr>calls := calls st @ [c]\<rparr>"

text \<open>
  The loop \<^verbatim>\<open>for (let i = 1; i < rows.length; i++) if (rows[i][0])
  map.set(rows[i][0], i + 1)\<close>.
\<close>

definition setRowsFrom :: "row list \<Rightarrow> (cell \<times> nat) list \<Rightarrow> (cell \<times> nat) list" where
  "setRowsFrom rows m =
     foldl (\<lambda>acc i. if truthy (cellAt (rows ! i) 0)
                     then AList.update (rows ! i ! 0) (i + 1) acc else acc)
       m [1 ..< length rows]"

definition initializeHoldingsRowMap :: "service \<Rightarrow> service" where
  "initializeHoldingsRowMap st =
     (let st1 = logCall (ValuesGet (Named ''MF_STOCKS'')) st;
          rows = MF_STOCKS st1
      in st1\<lparr>holdingsRowMap := setRowsFrom rows []\<rparr>)"

definition getHoldings :: "host \<Rightarrow> service \<Rightarrow> Holding list \<times> service" where
  "getHoldings hst st =
     (let st1 = logCall (ValuesGet (Named ''MF_STOCKS'')) st;
          rows = MF_STOCKS st1
      in if length rows \<le> 1 then ([], st1)
         else
           (map (parseHoldingFromRow hst)
              (filter (\<lambda>r. truthy (cellAt r 0)) (tl rows)),
            st1\<lparr>holdingsRowMap := setRowsFrom rows (holdingsRowMap st1)\<rparr>))"

definition addHolding :: "host \<Rightarrow> service \<Rightarrow> CreateHoldingRequest \<Rightarrow> Holding \<times> service" where
  "addHolding hst st holding =
     (let ident = generateUUID (random hst);
          updatedAt = now hst;
          val = c_qty holding * c_current_price holding;
          newHolding =
            \<lparr> h_id = ident,
              h_symbol = c_symbol holding,
              h_name = c_name holding,
              h_sector = c_sector holding,
              h_qty = c_qty holding,
              h_avg_price = c_avg_price holding,
              h_current_price = c_current_price holding,
              h_value = val,
              h_rsi = map_option Num (c_rsi holding),
              h_allocation_pct = c_allocation_pct holding,
              h_notes = c_notes holding,
              h_updated_at = updatedAt \<rparr>;
          rowValues = holdingToRowValues newHolding;
          st1 = logCall (ValuesAppend (Named ''MF_STOCKS'')) st
      in (newHolding, st1\<lparr>MF_STOCKS := MF_STOCKS st1 @ [rowValues]\<rparr>))"

text \<open>\<^verbatim>\<open>{ ...currentHolding, ...updates }\<close>: a key present in the payload wins.\<close>

definition orElse :: "'a option \<Rightarrow> 'a \<Rightarrow> 'a" where
  "orElse x d = (case x of None \<Rightarrow> d | Some v \<Rightarrow> v)"

definition applyUpdates :: "Holding \<Rightarrow> UpdateHoldingRequest \<Rightarrow> Holding" where
  "applyUpdates cur updates =
     cur\<lparr> h_symbol := orElse (u_symbol updates) (h_symbol cur),
          h_name := orElse (u_name updates) (h_name cur),
          h_sector := orElse (u_sector updates) (h_sector cur),
          h_qty := orElse (u_qty updates) (h_qty cur),
          h_avg_price := orElse (u_avg_price updates) (h_avg_price cur),
          h_current_price := orElse (u_current_price updates) (h_current_price cur),
          h_rsi := (case u_rsi updates of None \<Rightarrow> h_rsi cur | Some r \<Rightarrow> Some (Num r)),
          h_allocation_pct := orElse (u_allocation_pct updates) (h_allocation_pct cur),
          h_notes := (case u_notes updates of None \<Rightarrow> h_notes cur | Some n \<Rightarrow> Some n) \<rparr>"

text \<open>
  Reading the range of one sheet row (\<^verbatim>\<open>response.data.values?.[0]\<close>): a row below
  the stored ones has no values.
\<close>

definition rowAt :: "row list \<Rightarrow> nat \<Rightarrow> row option" where
  "rowAt rows i = (if i < length rows then Some (rows ! i) else None)"

text \<open>
  \<^verbatim>\<open>holdingsRowMap.get(id)\<close> followed by \<^verbatim>\<open>if (!rowIndex)\<close>: a missing entry and
  the index 0 both count as not found.
\<close>

definition rowIndexOf :: "service \<Rightarrow> string \<Rightarrow> nat option" where
  "rowIndexOf st ident =
     (case map_of (holdingsRowMap st) (CStr ident) of
        None \<Rightarrow> None
      | Some r \<Rightarrow> (if r = 0 then None else Some r))"

text \<open>\<^verbatim>\<open>if (this.holdingsRowMap.size === 0) await this.initializeHoldingsRowMap()\<close>\<close>

definition ensureRowMap :: "service \<Rightarrow> service" where
  "ensureRowMap st =
     (if length (holdingsRowMap st) = 0 then initializeHoldingsRowMap st else st)"

definition updateHolding ::
  "host \<Rightarrow> service \<Rightarrow> string \<Rightarrow> UpdateHoldingRequest \<Rightarrow> (error + Holding) \<times> service" where
  "updateHolding hst st ident updates =
     (let st1 = ensureRowMap st
      in case rowIndexOf st1 ident of
           None \<Rightarrow> (Inl (HoldingNotFound ident), st1)
         | Some rowIndex \<Rightarrow>
             (let st2 = logCall (ValuesGet (RowOf ''MF_STOCKS'' rowIndex)) st1
              in case rowAt (MF_STOCKS st2) (rowIndex - 1) of
                   None \<Rightarrow> (Inl (HoldingNotFoundInRow ident rowIndex), st2)
                 | Some stored \<Rightarrow>
                     (let currentRow = take 12 stored;
                          currentHolding = parseHoldingFromRow hst currentRow;
                          merged = (applyUpdates currentHolding updates)
                                     \<lparr>h_id := ident, h_updated_at := now hst\<rparr>;
                          updatedHolding =
                            (if u_qty updates \<noteq> None \<or> u_current_price updates \<noteq> None
                             then merged\<lparr>h_value := h_qty merged * h_current_price merged\<rparr>
                             else merged);
                          rowValues = holdingToRowValues updatedHolding;
                          st3 = logCall (ValuesUpdate (RowOf ''MF_STOCKS'' rowIndex)) st2
                      in (Inr updatedHolding,
                          st3\<lparr>MF_STOCKS :=
                                (MF_STOCKS st3)[rowIndex - 1 := rowValues @ drop 12 stored]\<rparr>))))"

text \<open>
  \<^verbatim>\<open>deleteDimension\<close> of the rows \<open>[startIndex, endIndex)\<close>, counted from 0: the rows
  below move up. A position below the last stored row holds no data.
\<close>

definition deleteRows :: "nat \<Rightarrow> nat \<Rightarrow> row list \<Rightarrow> row list" where
  "deleteRows startIndex endIndex rows = take startIndex rows @ drop endIndex rows"

definition deleteHolding :: "service \<Rightarrow> string \<Rightarrow> (error + unit) \<times> service" where
  "deleteHolding st ident =
     (let st1 = ensureRowMap st
      in case rowIndexOf st1 ident of
           None \<Rightarrow> (Inl (HoldingNotFound ident), st1)
         | Some rowIndex \<Rightarrow>
             (let st2 = logCall SpreadsheetsGet st1;
                  st3 = logCall (BatchUpdateDelete (rowIndex - 1) rowIndex) st2;
                  st4 = st3\<lparr>MF_STOCKS := deleteRows (rowIndex - 1) rowIndex (MF_STOCKS st3)\<rparr>
              in (Inr (),
                  st4\<lparr>holdingsRowMap := AList.delete (CStr ident) (holdingsRowMap st4)\<rparr>)))"

text \<open>The stored identifiers: the first cell of every data row that has one.\<close>

definition storedIds :: "service \<Rightarrow> cell set" where
  "storedIds st =
     set (map (\<lambda>r. r ! 0) (filter (\<lambda>r. truthy (cellAt r 0)) (tl (MF_STOCKS st))))"

subsection \<open>Ideal allocation and snapshot run\<close>

definition getIdealAllocation :: "host \<Rightarrow> service \<Rightarrow> IdealAllocation list \<times> service" where
  "getIdealAllocation hst st =
     (let st1 = logCall (ValuesGet (Named ''IDEAL_ALLOCATION'')) st;
          rows = IDEAL_ALLOCATION st1
      in if length rows \<le> 1 then ([], st1)
         else
           (map (\<lambda>r. \<lparr> i_sector = textOr hst (cellAt r 0) [],
                       i_target_pct = numOrZero (parseFloat (cellAt r 1)) \<rparr>)
              (filter (\<lambda>r. truthy (cellAt r 0) \<and> truthy (cellAt r 1)) (tl rows)),
            st1))"

definition snapshotRow :: "Snapshot \<Rightarrow> row" where
  "snapshotRow s =
     [ CStr (s_date s), CStr (s_sector s), CNum (s_actual_pct s),
       CNum (Num (s_target_pct s)), CNum (s_variance s), CNum (Num (s_total_value s)) ]"

definition createSnapshot :: "host \<Rightarrow> service \<Rightarrow> Snapshot list \<times> service" where
  "createSnapshot hst st =
     (let (holdings, st1) = getHoldings hst st;
          (idealAllocations, st2) = getIdealAllocation hst st1;
          snapshots = computeSnapshots (now hst) holdings idealAllocations;
          rowsToAdd = map snapshotRow snapshots;
          st3 = logCall (ValuesAppend (Named ''SNAPSHOT'')) st2
      in (snapshots, st3\<lparr>SNAPSHOT := SNAPSHOT st3 @ rowsToAdd\<rparr>))"

subsection \<open>Reference notions and sample data\<close>

text \<open>The three-way lexicographic comparison of two strings, character by character.\<close>

definition lexCompare :: "string \<Rightarrow> string \<Rightarrow> int" where
  "lexCompare a b = (if a < b then - 1 else if a = b then 0 else 1)"

text \<open>
  Sorting by month in descending lexicographic order, said with the library's stable
  ascending sort: entries of the same month keep the order they had.
\<close>

definition sortByMonthDescending :: "MonthlyGrowth list \<Rightarrow> MonthlyGrowth list" where
  "sortByMonthDescending growth = rev (sort_key g_month (rev growth))"

abbreviation monthDesc :: "MonthlyGrowth \<Rightarrow> MonthlyGrowth \<Rightarrow> int" where
  "monthDesc \<equiv> (\<lambda>a b. lexCompare (g_month b) (g_month a))"

text \<open>
  A collation for the worked examples, in the manner of the default collation of the
  host on ASCII letters, digits and hyphens: strings compare without regard to case
  first, and lower case goes before upper case where that leaves them equal. So \<open>a\<close>
  goes before \<open>B\<close>, as \<^verbatim>\<open>'a'.localeCompare('B')\<close> is negative.
\<close>

definition lowerCase :: "char \<Rightarrow> char" where
  "lowerCase c =
     (case map_of (zip ''ABCDEFGHIJKLMNOPQRSTUVWXYZ'' ''abcdefghijklmnopqrstuvwxyz'') c of
        Some l \<Rightarrow> l
      | None \<Rightarrow> c)"

definition sampleCollate :: "string \<Rightarrow> string \<Rightarrow> int" where
  "sampleCollate a b =
     (let ka = map lowerCase a; kb = map lowerCase b
      in if ka < kb then - 1
         else if kb < ka then 1
         else if a = b then 0
         else if b < a then - 1
         else 1)"

text \<open>A month of the form YYYY-MM.\<close>

definition isMonth :: "string \<Rightarrow> bool" where
  "isMonth m = (length m = 7 \<and> m ! 4 = CHR ''-'' \<and> list_all isDigit (take 4 m @ drop 5 m))"

definition sampleGrowth :: "string \<Rightarrow> string \<Rightarrow> MonthlyGrowth" where
  "sampleGrowth m acct = \<lparr> g_month = m, g_account = acct, g_pnl = 100 \<rparr>"

text \<open>A holding of a given sector, quantity and prices, for the worked examples.\<close>

definition sampleHolding :: "string \<Rightarrow> real \<Rightarrow> real \<Rightarrow> real \<Rightarrow> Holding" where
  "sampleHolding sec q avg cur =
     \<lparr> h_id = ''3f2b8c1e-7a4d-4e5f-9b6a-0c1d2e3f4a5b'', h_symbol = ''SYM'', h_name = ''Sample'',
       h_sector = sec, h_qty = q, h_avg_price = avg, h_current_price = cur,
       h_value = q * cur, h_rsi = None, h_allocation_pct = 10, h_notes = None,
       h_updated_at = ''2026-11-02T09:30:00.000Z'' \<rparr>"

text \<open>
  The number of times a call log shows the whole holdings range being read again, which
  is what a rebuild of the row map does.
\<close>

definition rebuilds :: "call list \<Rightarrow> nat" where
  "rebuilds cs = length (filter (\<lambda>c. c = ValuesGet (Named ''MF_STOCKS'')) cs)"

text \<open>
  A text is numeric when, after leading white space and an optional sign, it starts with a
  digit, with a dot and a digit, or with the word \<open>Infinity\<close>. A cell counts as missing
  or non-numeric when it is absent, holds the number NaN, or holds a text that is not
  numeric.
\<close>

definition startsNumber :: "string \<Rightarrow> bool" where
  "startsNumber u =
     (take 8 u = ''Infinity''
      \<or> (u \<noteq> [] \<and> isDigit (hd u))
      \<or> (u \<noteq> [] \<and> hd u = CHR ''.'' \<and> tl u \<noteq> [] \<and> isDigit (hd (tl u))))"

definition numericText :: "string \<Rightarrow> bool" where
  "numericText s =
     (let t = trimStart s
      in startsNumber (if t \<noteq> [] \<and> (hd t = CHR ''-'' \<or> hd t = CHR ''+'') then tl t else t))"

definition missingOrNonNumeric :: "cell option \<Rightarrow> bool" where
  "missingOrNonNumeric c =
     (case c of
        None \<Rightarrow> True
      | Some (CNum x) \<Rightarrow> x = NaN
      | Some (CStr s) \<Rightarrow> \<not> numericText s)"

text \<open>One pattern character accepts at least what another does.\<close>

definition weaker :: "char \<Rightarrow> char \<Rightarrow> bool" where
  "weaker t p = (\<forall>c. charMatches t c \<longrightarrow> charMatches p c)"

text \<open>
  A host for the worked examples: a fixed clock, random numbers that run through the
  sixteenths, and numbers shown as \<open>0\<close> where a text is expected.
\<close>

definition sampleRandom :: "nat \<Rightarrow> real" where
  "sampleRandom n = real (n mod 16) / 16 + 1 / 32"

definition sampleHost :: host where
  "sampleHost = \<lparr> now = ''2026-11-02T09:30:00.000Z'', random = sampleRandom,
                  numberText = (\<lambda>r. ''0'') \<rparr>"

definition headerRow :: row where
  "headerRow = map CStr [''id'', ''symbol'', ''name'', ''sector'', ''qty'', ''avg_price'',
     ''current_price'', ''value'', ''rsi'', ''allocation_pct'', ''notes'', ''updated_at'']"

definition sampleRequest :: "real option \<Rightarrow> string option \<Rightarrow> CreateHoldingRequest" where
  "sampleRequest r n =
     \<lparr> c_symbol = ''ACME'', c_name = ''Acme Corp'', c_sector = ''tech'', c_qty = 4,
       c_avg_price = 90, c_current_price = 100, c_rsi = r, c_allocation_pct = 25,
       c_notes = n \<rparr>"

definition sampleUpdate :: UpdateHoldingRequest where
  "sampleUpdate = \<lparr> u_symbol = None, u_name = None, u_sector = None, u_qty = Some 10,
      u_avg_price = None, u_current_price = None, u_rsi = None, u_allocation_pct = None,
      u_notes = None \<rparr>"

text \<open>A sheet with its header only, and the same after one holding has been created.\<close>

definition emptyService :: service where
  "emptyService = \<lparr> MF_STOCKS = [headerRow], IDEAL_ALLOCATION = [], SNAPSHOT = [],
      holdingsRowMap = [], calls = [] \<rparr>"

definition oneHolding :: service where
  "oneHolding = snd (addHolding sampleHost emptyService (sampleRequest (Some 55) (Some ''core'')))"

text \<open>
  A sheet of five holdings \<open>a\<close> to \<open>e\<close> and a service that has just started (empty row
  map); then the service after the holdings have been listed, after a request to delete
  \<open>a\<close>, and after a further request to delete \<open>b\<close>.
\<close>

definition holdingRow :: "string \<Rightarrow> row" where
  "holdingRow ident = holdingToRowValues ((sampleHolding ''tech'' 4 90 100)\<lparr>h_id := ident\<rparr>)"

definition fiveHoldings :: service where
  "fiveHoldings =
     \<lparr> MF_STOCKS = headerRow # map holdingRow
         [''00000000-0000-4000-8000-00000000000a'', ''00000000-0000-4000-8000-00000000000b'',
          ''00000000-0000-4000-8000-00000000000c'', ''00000000-0000-4000-8000-00000000000d'',
          ''00000000-0000-4000-8000-00000000000e''],
       IDEAL_ALLOCATION = [], SNAPSHOT = [], holdingsRowMap = [], calls = [] \<rparr>"

definition listedHoldings :: service where
  "listedHoldings = snd (getHoldings sampleHost fiveHoldings)"

definition afterFirstDelete :: service where
  "afterFirstDelete = snd (deleteHolding fiveHoldings ''00000000-0000-4000-8000-00000000000a'')"

definition afterSecondDelete :: service where
  "afterSecondDelete =
     snd (deleteHolding afterFirstDelete ''00000000-0000-4000-8000-00000000000b'')"

definition firstCells :: "service \<Rightarrow> cell list" where
  "firstCells st = map (\<lambda>r. r ! 0) (MF_STOCKS st)"

section \<open>Properties of the aggregation\<close>

lemma foldl_plus_sum_list:
  "foldl (\<lambda>s x. s + f x) (a::real) xs = a + sum_list (map f xs)"
  by (induction xs arbitrary: a) simp_all

lemma foldl_snoc_map: "foldl (\<lambda>acc x. acc @ [f x]) ys xs = ys @ map f xs"
  by (induction xs arbitrary: ys) simp_all

subsection \<open>Snapshot run\<close>

lemma createSnapshot_fst:
  "fst (createSnapshot hst st) =
     computeSnapshots (now hst) (fst (getHoldings hst st)) (fst (getIdealAllocation hst st))"
  by (simp add: createSnapshot_def getHoldings_def getIdealAllocation_def Let_def logCall_def
        split: prod.splits)

lemma inherited_toString: "''toString'' \<in> set inheritedNames"
  by (simp add: inheritedNames_def)

lemma regular_sample_sectors:
  "''tech'' \<notin> set inheritedNames" "''bonds'' \<notin> set inheritedNames"
  by (simp_all add: inheritedNames_def)

lemma proto_inherited: "''__proto__'' \<in> set inheritedNames"
  by (simp add: inheritedNames_def)

text \<open>
  For a sector whose name is not one that a plain object inherits, the sector totals hold
  the sum of the values of the sector's holdings, and the actual percentage is the
  sector's share of the total.
\<close>

lemma getProp_addSector_other:
  "h_sector h \<noteq> s \<Longrightarrow> getProp (addSector m h) s = getProp m s"
  by (simp add: addSector_def setProp_def getProp_def)

lemma getProp_addSector_same:
  "s \<notin> set inheritedNames \<Longrightarrow> orZero (getProp m s) = JNum a \<Longrightarrow>
   getProp (addSector m (h\<lparr>h_sector := s\<rparr>)) s = Some (JNum (a + h_value h))"
  using proto_inherited
  by (auto simp: addSector_def setProp_def getProp_def plusNumber_def)

lemma foldl_addSector:
  "s \<notin> set inheritedNames \<Longrightarrow> orZero (getProp m s) = JNum a \<Longrightarrow>
   orZero (getProp (foldl addSector m hs) s) =
     JNum (a + sum_list (map h_value (filter (\<lambda>h. h_sector h = s) hs)))"
proof (induction hs arbitrary: m a)
  case Nil
  then show ?case by simp
next
  case (Cons h hs)
  show ?case
  proof (cases "h_sector h = s")
    case True
    then have "h\<lparr>h_sector := s\<rparr> = h"
      by auto
    with getProp_addSector_same [OF Cons.prems, of h]
    have "orZero (getProp (addSector m h) s) = JNum (a + h_value h)"
      by (simp add: orZero_def)
    from Cons.IH [OF Cons.prems(1) this] True show ?thesis
      by (simp add: add.assoc)
  next
    case False
    then have "orZero (getProp (addSector m h) s) = JNum a"
      using Cons.prems(2) by (simp add: getProp_addSector_other)
    from Cons.IH [OF Cons.prems(1) this] False show ?thesis
      by simp
  qed
qed

lemma sectorTotals_regular:
  assumes "s \<notin> set inheritedNames"
  shows "orZero (getProp (sectorTotals hs) s) =
     JNum (sum_list (map h_value (filter (\<lambda>h. h_sector h = s) hs)))"
proof -
  have "orZero (getProp Map.empty s) = JNum 0"
    using assms proto_inherited by (auto simp: getProp_def orZero_def)
  from foldl_addSector [OF assms this, of hs] show ?thesis
    by (simp add: sectorTotals_def)
qed

lemma actualPct_regular:
  "s \<notin> set inheritedNames \<Longrightarrow>
   actualPct (sectorTotals hs) t s =
     Num (if t > 0 then sum_list (map h_value (filter (\<lambda>h. h_sector h = s) hs)) / t * 100
          else 0)"
  by (simp add: actualPct_def sectorTotals_regular percentOf_def)

text \<open>
  For a sector whose name a plain object inherits and that no holding has, the actual
  percentage is NaN as soon as the total is positive.
\<close>

lemma actualPct_inherited:
  assumes "s \<in> set inheritedNames" "s \<notin> h_sector ` set hs" "t > 0"
  shows "actualPct (sectorTotals hs) t s = NaN"
proof -
  have "s \<notin> h_sector ` set hs \<Longrightarrow> foldl addSector m hs s = m s" for m
    by (induction hs arbitrary: m) (auto simp: addSector_def setProp_def)
  with assms(2) have "sectorTotals hs s = None"
    by (simp add: sectorTotals_def)
  with assms(1,3) show ?thesis
    by (simp add: actualPct_def getProp_def orZero_def percentOf_def)
qed

lemma computeSnapshots_eq:
  "computeSnapshots nw hs ideals =
     map (\<lambda>a. \<lparr> s_date = currentDateOf nw,
                s_sector = i_sector a,
                s_actual_pct = actualPct (sectorTotals hs) (sum_list (map h_value hs)) (i_sector a),
                s_target_pct = i_target_pct a,
                s_variance =
                  minusNumber (actualPct (sectorTotals hs) (sum_list (map h_value hs)) (i_sector a))
                    (i_target_pct a),
                s_total_value = sum_list (map h_value hs) \<rparr>) ideals"
  by (simp add: computeSnapshots_def Let_def foldl_snoc_map snapshotFor_def foldl_plus_sum_list)

lemma currentDateOf_split:
  "currentDateOf (filter (\<lambda>c. c \<noteq> CHR ''T'') d @ CHR ''T'' # rest) = filter (\<lambda>c. c \<noteq> CHR ''T'') d"
  unfolding currentDateOf_def by (induction d) simp_all

lemma sectorTotals_tech_bonds:
  "sectorTotals [sampleHolding ''tech'' 4 90 100, sampleHolding ''bonds'' 3 100 100,
                 sampleHolding ''tech'' 2 50 100]
     = [''tech'' \<mapsto> JNum 600, ''bonds'' \<mapsto> JNum 300]"
  by (simp add: sectorTotals_def addSector_def setProp_def getProp_def orZero_def plusNumber_def
        sampleHolding_def regular_sample_sectors fun_upd_twist)

lemma sectorTotals_tech_toString:
  "sectorTotals [sampleHolding ''tech'' 6 90 100, sampleHolding ''toString'' 3 90 100]
     = [''tech'' \<mapsto> JNum 600, ''toString'' \<mapsto> JStr]"
  by (simp add: sectorTotals_def addSector_def setProp_def getProp_def orZero_def plusNumber_def
        sampleHolding_def regular_sample_sectors inherited_toString)

text \<open>
  Claim C1 at a failing input. A snapshot run returns the records computed from the
  holdings and ideal allocations it has read: one record per ideal allocation, in the
  order of the ideals, each with the part of the clock's ISO string before its \<open>T\<close> as
  date, the sum of all holding values as total value, the target copied, and the actual
  percentage less the target as variance. The actual percentage is read from the sector
  totals, which are kept in a plain object. On the specification's example (ideals tech
  60 and bonds 40, holdings worth 600 in tech and 300 in bonds) the records are as
  claimed. With holdings worth 600 in the sector \<open>tech\<close> and 300 in a sector named
  \<open>toString\<close>, and the ideals tech 60 and toString 40, the record of \<open>toString\<close> has NaN
  as actual percentage and as variance, where the claim gives 300/900*100 and its
  difference to 40: the plain object answers \<open>toString\<close> with the function it inherits,
  and the sum of a function and a number is a string.
\<close>

theorem createSnapshot_inherited_sector:
  "fst (createSnapshot hst st) =
     computeSnapshots (now hst) (fst (getHoldings hst st)) (fst (getIdealAllocation hst st))
   \<and> computeSnapshots nw hs ideals =
       map (\<lambda>a. \<lparr> s_date = currentDateOf nw,
                  s_sector = i_sector a,
                  s_actual_pct =
                    actualPct (sectorTotals hs) (sum_list (map h_value hs)) (i_sector a),
                  s_target_pct = i_target_pct a,
                  s_variance =
                    minusNumber
                      (actualPct (sectorTotals hs) (sum_list (map h_value hs)) (i_sector a))
                      (i_target_pct a),
                  s_total_value = sum_list (map h_value hs) \<rparr>) ideals
   \<and> currentDateOf (filter (\<lambda>c. c \<noteq> CHR ''T'') d @ CHR ''T'' # rest)
       = filter (\<lambda>c. c \<noteq> CHR ''T'') d
   \<and> computeSnapshots ''2026-11-02T09:30:00.000Z''
         [sampleHolding ''tech'' 4 90 100, sampleHolding ''bonds'' 3 100 100,
          sampleHolding ''tech'' 2 50 100]
         [\<lparr>i_sector = ''tech'', i_target_pct = 60\<rparr>, \<lparr>i_sector = ''bonds'', i_target_pct = 40\<rparr>]
       = [\<lparr> s_date = ''2026-11-02'', s_sector = ''tech'', s_actual_pct = Num (600 / 900 * 100),
            s_target_pct = 60, s_variance = Num (600 / 900 * 100 - 60), s_total_value = 900 \<rparr>,
          \<lparr> s_date = ''2026-11-02'', s_sector = ''bonds'', s_actual_pct = Num (300 / 900 * 100),
            s_target_pct = 40, s_variance = Num (300 / 900 * 100 - 40), s_total_value = 900 \<rparr>]
   \<and> computeSnapshots ''2025-03-09T23:59:59.999Z''
         [sampleHolding ''tech'' 6 90 100, sampleHolding ''toString'' 3 90 100]
         [\<lparr>i_sector = ''tech'', i_target_pct = 60\<rparr>, \<lparr>i_sector = ''toString'', i_target_pct = 40\<rparr>]
       = [\<lparr> s_date = ''2025-03-09'', s_sector = ''tech'', s_actual_pct = Num (600 / 900 * 100),
            s_target_pct = 60, s_variance = Num (600 / 900 * 100 - 60), s_total_value = 900 \<rparr>,
          \<lparr> s_date = ''2025-03-09'', s_sector = ''toString'', s_actual_pct = NaN,
            s_target_pct = 40, s_variance = NaN, s_total_value = 900 \<rparr>]"
proof -
  have 1: "computeSnapshots ''2026-11-02T09:30:00.000Z''
         [sampleHolding ''tech'' 4 90 100, sampleHolding ''bonds'' 3 100 100,
          sampleHolding ''tech'' 2 50 100]
         [\<lparr>i_sector = ''tech'', i_target_pct = 60\<rparr>, \<lparr>i_sector = ''bonds'', i_target_pct = 40\<rparr>]
       = [\<lparr> s_date = ''2026-11-02'', s_sector = ''tech'', s_actual_pct = Num (600 / 900 * 100),
            s_target_pct = 60, s_variance = Num (600 / 900 * 100 - 60), s_total_value = 900 \<rparr>,
          \<lparr> s_date = ''2026-11-02'', s_sector = ''bonds'', s_actual_pct = Num (300 / 900 * 100),
            s_target_pct = 40, s_variance = Num (300 / 900 * 100 - 40), s_total_value = 900 \<rparr>]"
    unfolding computeSnapshots_def sectorTotals_tech_bonds
    by (simp add: Let_def snapshotFor_def actualPct_def getProp_def orZero_def percentOf_def
          minusNumber_def currentDateOf_def sampleHolding_def regular_sample_sectors)
  have 2: "computeSnapshots ''2025-03-09T23:59:59.999Z''
         [sampleHolding ''tech'' 6 90 100, sampleHolding ''toString'' 3 90 100]
         [\<lparr>i_sector = ''tech'', i_target_pct = 60\<rparr>, \<lparr>i_sector = ''toString'', i_target_pct = 40\<rparr>]
       = [\<lparr> s_date = ''2025-03-09'', s_sector = ''tech'', s_actual_pct = Num (600 / 900 * 100),
            s_target_pct = 60, s_variance = Num (600 / 900 * 100 - 60), s_total_value = 900 \<rparr>,
          \<lparr> s_date = ''2025-03-09'', s_sector = ''toString'', s_actual_pct = NaN,
            s_target_pct = 40, s_variance = NaN, s_total_value = 900 \<rparr>]"
    unfolding computeSnapshots_def sectorTotals_tech_toString
    by (simp add: Let_def snapshotFor_def actualPct_def getProp_def orZero_def percentOf_def
          minusNumber_def currentDateOf_def sampleHolding_def regular_sample_sectors)
  show ?thesis
    using createSnapshot_fst [of hst st] computeSnapshots_eq [of nw hs ideals]
      currentDateOf_split [of d rest] 1 2
    by blast
qed

subsection \<open>Summary\<close>

text \<open>
  Claim C2. The summary's total invested is the sum of quantity times average price, its
  net worth the sum of the values, the unrealized gain or loss their difference, and the
  unrealized percentage the gain over the total invested times 100 when the total invested
  is positive and 0 otherwise; in particular it is 0 when the total invested is 0, whatever
  the net worth. The computation has no failing branch.
\<close>

theorem summary_kpis:
  "total_invested (summary c y hs ideals g) = sum_list (map (\<lambda>h. h_qty h * h_avg_price h) hs)
   \<and> current_net_worth (summary c y hs ideals g) = sum_list (map h_value hs)
   \<and> unrealized_gain_loss (summary c y hs ideals g) =
       current_net_worth (summary c y hs ideals g) - total_invested (summary c y hs ideals g)
   \<and> unrealized_pct (summary c y hs ideals g) =
       (if total_invested (summary c y hs ideals g) > 0
        then unrealized_gain_loss (summary c y hs ideals g)
               / total_invested (summary c y hs ideals g) * 100
        else 0)
   \<and> (total_invested (summary c y hs ideals g) = 0
        \<longrightarrow> unrealized_pct (summary c y hs ideals g) = 0)"
  by (simp add: summary_def Let_def foldl_plus_sum_list)

theorem summary_kpis_witness:
  "total_invested (summary sampleCollate ''2026''
       [sampleHolding ''tech'' 0 10 5, sampleHolding ''tech'' 3 0 7] [] []) = 0
   \<and> current_net_worth (summary sampleCollate ''2026''
       [sampleHolding ''tech'' 0 10 5, sampleHolding ''tech'' 3 0 7] [] []) = 21
   \<and> unrealized_pct (summary sampleCollate ''2026''
       [sampleHolding ''tech'' 0 10 5, sampleHolding ''tech'' 3 0 7] [] []) = 0"
  using summary_kpis [of sampleCollate "''2026''"
          "[sampleHolding ''tech'' 0 10 5, sampleHolding ''tech'' 3 0 7]" "[]" "[]"]
  by (simp add: sampleHolding_def)

lemma allocation_variance_summary:
  "allocation_variance (summary c y hs ideals g) =
     allocationVariance (sectorTotals hs) (sum_list (map h_value hs)) ideals"
  by (simp add: summary_def Let_def foldl_plus_sum_list)

lemma sectorTotals_tech:
  "sectorTotals [sampleHolding ''tech'' 6 90 100] = [''tech'' \<mapsto> JNum 600]"
  by (simp add: sectorTotals_def addSector_def setProp_def getProp_def orZero_def plusNumber_def
        sampleHolding_def regular_sample_sectors)

text \<open>
  The own keys of a plain object filled by assignments are the assigned names other than
  \<open>__proto__\<close>, and the last assignment to a name is the one that stays.
\<close>

lemma foldl_setProp_dom:
  "dom (foldl (\<lambda>m a. setProp m (k a) (v a)) m0 xs) = dom m0 \<union> (k ` set xs - {''__proto__''})"
  by (induction xs arbitrary: m0) (auto simp: setProp_def)

lemma foldl_setProp_lookup:
  "s \<noteq> ''__proto__'' \<Longrightarrow>
   foldl (\<lambda>m a. setProp m (k a) (v a)) m0 xs s =
     (case find (\<lambda>a. k a = s) (rev xs) of None \<Rightarrow> m0 s | Some a \<Rightarrow> Some (v a))"
proof (induction xs rule: rev_induct)
  case Nil
  show ?case by simp
next
  case (snoc x xs)
  then show ?case by (simp add: setProp_def)
qed

text \<open>
  For a sector of the ideals whose name is not one that a plain object inherits, the
  variance map holds the sector's share of the net worth less the target of the last
  ideal allocation of that sector.
\<close>

lemma allocation_variance_regular:
  assumes "s \<notin> set inheritedNames"
  shows "allocation_variance (summary c y hs ideals g) s =
     (case find (\<lambda>a. i_sector a = s) (rev ideals) of
        None \<Rightarrow> None
      | Some a \<Rightarrow>
          Some (Num ((if sum_list (map h_value hs) > 0
                      then sum_list (map h_value (filter (\<lambda>h. h_sector h = s) hs))
                             / sum_list (map h_value hs) * 100
                      else 0) - i_target_pct a)))"
proof -
  from assms proto_inherited have p: "s \<noteq> ''__proto__''"
    by auto
  show ?thesis
  proof (cases "find (\<lambda>a. i_sector a = s) (rev ideals)")
    case None
    then show ?thesis
      by (simp add: allocation_variance_summary allocationVariance_def
            foldl_setProp_lookup [OF p])
  next
    case (Some a)
    then have "i_sector a = s"
      by (auto simp: find_Some_iff)
    with Some assms show ?thesis
      by (simp add: allocation_variance_summary allocationVariance_def
            foldl_setProp_lookup [OF p] actualPct_regular minusNumber_def)
  qed
qed

text \<open>
  Claim C3 at a failing input. The keys of the variance map are the sectors of the
  ideals other than \<open>__proto__\<close>. Take holdings worth 600, all in the sector \<open>tech\<close>,
  and the ideals tech 60, \<open>toString\<close> 20 and \<open>__proto__\<close> 20. The variance map holds
  40 for tech. For \<open>toString\<close> it holds NaN, where the claim gives 0 - 20: the sector
  total is read as the function every plain object inherits under that name. It has no
  key \<open>__proto__\<close> at all, where the claim gives -20: assigning a number under that
  name to a plain object makes no property.
\<close>

theorem summary_allocation_variance_inherited:
  "dom (allocation_variance (summary c y hs ideals g)) = i_sector ` set ideals - {''__proto__''}
   \<and> allocation_variance
       (summary c y [sampleHolding ''tech'' 6 90 100]
          [\<lparr>i_sector = ''tech'', i_target_pct = 60\<rparr>, \<lparr>i_sector = ''toString'', i_target_pct = 20\<rparr>,
           \<lparr>i_sector = ''__proto__'', i_target_pct = 20\<rparr>] g)
     = [''tech'' \<mapsto> Num 40, ''toString'' \<mapsto> NaN]
   \<and> dom (allocation_variance
       (summary c y [sampleHolding ''tech'' 6 90 100]
          [\<lparr>i_sector = ''tech'', i_target_pct = 60\<rparr>, \<lparr>i_sector = ''toString'', i_target_pct = 20\<rparr>,
           \<lparr>i_sector = ''__proto__'', i_target_pct = 20\<rparr>] g))
     = {''tech'', ''toString''}"
proof -
  have d: "dom (allocation_variance (summary c y hs ideals g))
      = i_sector ` set ideals - {''__proto__''}"
    by (simp add: allocation_variance_summary allocationVariance_def foldl_setProp_dom)
  have e: "allocation_variance
     (summary c y [sampleHolding ''tech'' 6 90 100]
        [\<lparr>i_sector = ''tech'', i_target_pct = 60\<rparr>, \<lparr>i_sector = ''toString'', i_target_pct = 20\<rparr>,
         \<lparr>i_sector = ''__proto__'', i_target_pct = 20\<rparr>] g)
   = [''tech'' \<mapsto> Num 40, ''toString'' \<mapsto> NaN]"
    unfolding allocation_variance_summary sectorTotals_tech
    by (simp add: Let_def allocationVariance_def setProp_def actualPct_def getProp_def orZero_def
          percentOf_def minusNumber_def sampleHolding_def regular_sample_sectors
          inherited_toString)
  have "dom [''tech'' \<mapsto> Num 40, ''toString'' \<mapsto> NaN] = {''tech'', ''toString''}"
    by auto
  with d e show ?thesis
    by simp
qed

subsection \<open>Monthly trend\<close>

lemma mset_insertWith: "mset (insertWith c x xs) = add_mset x (mset xs)"
  by (induction xs) simp_all

lemma mset_sortWith: "mset (sortWith c xs) = mset xs"
  by (induction xs) (simp_all add: mset_insertWith)

lemma set_insertWith: "set (insertWith c x xs) = insert x (set xs)"
  by (induction xs) auto

lemma set_sortWith: "set (sortWith c xs) = set xs"
  by (induction xs) (simp_all add: set_insertWith)

lemma length_sortWith: "length (sortWith c xs) = length xs"
  by (metis mset_sortWith size_mset)

text \<open>Two comparators that agree on the elements sort them alike.\<close>

lemma insertWith_cong:
  "(\<And>y. y \<in> set ys \<Longrightarrow> (c1 x y \<le> 0) = (c2 x y \<le> 0)) \<Longrightarrow> insertWith c1 x ys = insertWith c2 x ys"
  by (induction ys) simp_all

lemma sortWith_cong:
  "(\<And>x y. x \<in> set xs \<Longrightarrow> y \<in> set xs \<Longrightarrow> (c1 x y \<le> 0) = (c2 x y \<le> 0))
   \<Longrightarrow> sortWith c1 xs = sortWith c2 xs"
proof (induction xs)
  case Nil
  show ?case by simp
next
  case (Cons x xs)
  have "sortWith c1 xs = sortWith c2 xs"
    by (rule Cons.IH) (simp add: Cons.prems)
  moreover have "insertWith c1 x (sortWith c2 xs) = insertWith c2 x (sortWith c2 xs)"
    by (rule insertWith_cong) (simp add: Cons.prems set_sortWith)
  ultimately show ?case by simp
qed

lemma sgn_le_0: "sgn (a::int) = sgn b \<Longrightarrow> (a \<le> 0) = (b \<le> 0)"
  by (auto simp: sgn_if split: if_splits)

lemma monthDesc_le0: "lexCompare (g_month b) (g_month a) \<le> 0 \<longleftrightarrow> g_month b \<le> g_month a"
  by (auto simp: lexCompare_def)

lemma sorted_insertWith:
  "sorted_wrt (\<lambda>a b. g_month b \<le> g_month a) xs \<Longrightarrow>
   sorted_wrt (\<lambda>a b. g_month b \<le> g_month a) (insertWith monthDesc x xs)"
proof (induction xs)
  case Nil
  show ?case by simp
next
  case (Cons y ys)
  show ?case
  proof (cases "monthDesc x y \<le> 0")
    case True
    with Cons.prems show ?thesis by (auto simp: monthDesc_le0)
  next
    case False
    with Cons show ?thesis by (auto simp: monthDesc_le0 set_insertWith)
  qed
qed

lemma sorted_sortWith: "sorted_wrt (\<lambda>a b. g_month b \<le> g_month a) (sortWith monthDesc xs)"
  by (induction xs) (simp_all add: sorted_insertWith)

text \<open>Stability: the entries of one month come out in the order they went in.\<close>

lemma filter_insertWith:
  "sorted_wrt (\<lambda>a b. g_month b \<le> g_month a) xs \<Longrightarrow>
   filter (\<lambda>e. g_month e = k) (insertWith monthDesc x xs) =
   filter (\<lambda>e. g_month e = k) (x # xs)"
proof (induction xs)
  case Nil
  show ?case by simp
next
  case (Cons y ys)
  show ?case
  proof (cases "monthDesc x y \<le> 0")
    case True
    then show ?thesis by simp
  next
    case False
    then have "g_month x < g_month y" "g_month x \<noteq> g_month y"
      by (auto simp: monthDesc_le0)
    with False Cons show ?thesis by (auto simp: monthDesc_le0)
  qed
qed

lemma filter_sortWith:
  "filter (\<lambda>e. g_month e = k) (sortWith monthDesc xs) = filter (\<lambda>e. g_month e = k) xs"
  by (induction xs) (simp_all add: filter_insertWith sorted_sortWith)

lemma sortWith_is_descending_sort: "sortWith monthDesc g = sortByMonthDescending g"
proof -
  let ?S = "sortWith monthDesc g"
  have "sort_key g_month (rev g) = rev ?S"
  proof (rule properties_for_sort_key)
    show "mset (rev ?S) = mset (rev g)"
      by (simp add: mset_sortWith)
    show "sorted (map g_month (rev ?S))"
      using sorted_sortWith [of g] by (simp add: sorted_wrt_map sorted_wrt_rev rev_map)
    fix k
    assume "k \<in> set (rev ?S)"
    have "filter (\<lambda>x. g_month x = g_month k) ?S = filter (\<lambda>x. g_month x = g_month k) g"
      by (rule filter_sortWith)
    then have "rev (filter (\<lambda>x. g_month x = g_month k) ?S)
        = rev (filter (\<lambda>x. g_month x = g_month k) g)"
      by simp
    then show "filter (\<lambda>x. g_month k = g_month x) (rev ?S)
        = filter (\<lambda>x. g_month k = g_month x) (rev g)"
      by (simp add: rev_filter eq_commute)
  qed
  then show ?thesis by (simp add: sortByMonthDescending_def)
qed

lemma sortedGrowth_lex:
  assumes agree: "\<forall>a\<in>set g. \<forall>b\<in>set g.
      sgn (collate (g_month a) (g_month b)) = sgn (lexCompare (g_month a) (g_month b))"
  shows "sortedGrowth collate g = rev (take 12 (sortByMonthDescending g))"
proof -
  have "sortWith (\<lambda>a b. collate (g_month b) (g_month a)) g = sortWith monthDesc g"
  proof (rule sortWith_cong)
    fix x z
    assume "x \<in> set g" "z \<in> set g"
    with agree
    have "sgn (collate (g_month z) (g_month x)) = sgn (lexCompare (g_month z) (g_month x))"
      by blast
    then show "(collate (g_month z) (g_month x) \<le> 0) = (lexCompare (g_month z) (g_month x) \<le> 0)"
      by (rule sgn_le_0)
  qed
  then show ?thesis
    by (simp add: sortedGrowth_def sortWith_is_descending_sort)
qed

lemma sorted_descending_trend:
  "sorted (map g_month (rev (take 12 (sortByMonthDescending g))))"
proof -
  have "sorted_wrt (\<lambda>a b. g_month b \<le> g_month a) (take 12 (sortWith monthDesc g))"
    using sorted_sortWith [of g] by (rule sorted_wrt_take)
  then have "sorted (map g_month (rev (take 12 (sortWith monthDesc g))))"
    by (simp add: sorted_map sorted_wrt_rev)
  then show ?thesis
    by (simp add: sortWith_is_descending_sort)
qed

lemma monthly_trend_summary:
  "monthly_trend (summary collate y hs ideals g) = sortedGrowth collate g"
  by (simp add: summary_def Let_def)

text \<open>
  The sample collation orders strings without upper-case letters as the lexicographic
  comparison does; months of the form YYYY-MM are such strings. So under it the trend of
  a growth list with such months is the lexicographic one.
\<close>

lemma lowerCase_plain:
  assumes "isDigit c \<or> c = CHR ''-''"
  shows "lowerCase c = c"
proof -
  from assms have c: "c \<le> CHR ''9''"
    by (auto simp: isDigit_def)
  have "\<forall>u\<in>set ''ABCDEFGHIJKLMNOPQRSTUVWXYZ''. CHR ''9'' < u"
    by simp
  with c have "c \<notin> set ''ABCDEFGHIJKLMNOPQRSTUVWXYZ''"
    by (meson leD)
  then have "map_of (zip ''ABCDEFGHIJKLMNOPQRSTUVWXYZ'' ''abcdefghijklmnopqrstuvwxyz'') c = None"
    by (subst map_of_zip_is_None) simp_all
  then show ?thesis
    unfolding lowerCase_def by simp
qed

lemma isMonth_plain:
  assumes "isMonth m"
  shows "map lowerCase m = m"
proof -
  from assms have l: "4 < length m" and h: "m ! 4 = CHR ''-''"
    and d: "list_all isDigit (take 4 m @ drop 5 m)"
    by (simp_all add: isMonth_def)
  from l have "m = take 4 m @ m ! 4 # drop (Suc 4) m"
    by (rule id_take_nth_drop)
  then have "set m = set (take 4 m @ m ! 4 # drop (Suc 4) m)"
    by simp
  then have "set m = set (take 4 m) \<union> {m ! 4} \<union> set (drop 5 m)"
    by simp
  with h d have "\<forall>c\<in>set m. isDigit c \<or> c = CHR ''-''"
    by (auto simp: list_all_iff)
  then show ?thesis
    by (simp add: map_idI lowerCase_plain)
qed

lemma sampleCollate_plain:
  "map lowerCase a = a \<Longrightarrow> map lowerCase b = b \<Longrightarrow> sampleCollate a b = lexCompare a b"
  by (auto simp: sampleCollate_def lexCompare_def Let_def)

lemma sortedGrowth_months:
  assumes "\<forall>e\<in>set g. isMonth (g_month e)"
  shows "sortedGrowth sampleCollate g = rev (take 12 (sortByMonthDescending g))"
proof (rule sortedGrowth_lex)
  show "\<forall>a\<in>set g. \<forall>b\<in>set g.
      sgn (sampleCollate (g_month a) (g_month b)) = sgn (lexCompare (g_month a) (g_month b))"
    using assms by (simp add: sampleCollate_plain isMonth_plain)
qed

text \<open>
  Claim C4, as the code has it. The summary's monthly trend has at most 12 entries, and
  each of them is an entry of the growth list. When the host's \<open>localeCompare\<close> orders
  the months of the list as the lexicographic comparison does, which is so for months of
  the form YYYY-MM, the trend is the growth list sorted by month in descending
  lexicographic order, cut to its first 12 entries and reversed, and its months ascend.
\<close>

theorem summary_monthly_trend:
  "length (monthly_trend (summary collate y hs ideals g)) \<le> 12
   \<and> set (monthly_trend (summary collate y hs ideals g)) \<subseteq> set g
   \<and> ((\<forall>a\<in>set g. \<forall>b\<in>set g.
          sgn (collate (g_month a) (g_month b)) = sgn (lexCompare (g_month a) (g_month b)))
       \<longrightarrow> monthly_trend (summary collate y hs ideals g) = rev (take 12 (sortByMonthDescending g))
         \<and> sorted (map g_month (monthly_trend (summary collate y hs ideals g))))"
proof -
  let ?C = "sortWith (\<lambda>a b. collate (g_month b) (g_month a)) g"
  have t: "sortedGrowth collate g = rev (take 12 ?C)"
    by (simp add: sortedGrowth_def)
  have l: "length (sortedGrowth collate g) \<le> 12"
    by (simp add: t)
  have "set (take 12 ?C) \<subseteq> set ?C"
    by (rule set_take_subset)
  then have m: "set (sortedGrowth collate g) \<subseteq> set g"
    by (simp add: t set_sortWith)
  have o: "sortedGrowth collate g = rev (take 12 (sortByMonthDescending g))
      \<and> sorted (map g_month (sortedGrowth collate g))"
    if "\<forall>a\<in>set g. \<forall>b\<in>set g.
          sgn (collate (g_month a) (g_month b)) = sgn (lexCompare (g_month a) (g_month b))"
    using sortedGrowth_lex [OF that] sorted_descending_trend [of g] by simp
  show ?thesis
    unfolding monthly_trend_summary using l m o by blast
qed

lemma sampleCollate_months:
  "sampleCollate ''2024-02'' ''2023-12'' = 1" "sampleCollate ''2023-12'' ''2024-02'' = - 1"
  "sampleCollate ''2024-02'' ''2024-02'' = 0" "sampleCollate ''2023-12'' ''2023-12'' = 0"
  by (simp_all add: sampleCollate_def lowerCase_def)

lemma lexCompare_months:
  "lexCompare ''2024-02'' ''2023-12'' = 1" "lexCompare ''2023-12'' ''2024-02'' = - 1"
  "lexCompare ''2024-02'' ''2024-02'' = 0" "lexCompare ''2023-12'' ''2023-12'' = 0"
  by (simp_all add: lexCompare_def)

lemma sampleCollate_letters: "sampleCollate ''a'' ''B'' = - 1" "sampleCollate ''B'' ''a'' = 1"
  by (simp_all add: sampleCollate_def lowerCase_def)

theorem summary_monthly_trend_witness:
  "sgn (sampleCollate ''2024-02'' ''2023-12'') = sgn (lexCompare ''2024-02'' ''2023-12'')
   \<and> sgn (sampleCollate ''2023-12'' ''2024-02'') = sgn (lexCompare ''2023-12'' ''2024-02'')
   \<and> sgn (sampleCollate ''2024-02'' ''2024-02'') = sgn (lexCompare ''2024-02'' ''2024-02'')
   \<and> sgn (sampleCollate ''2023-12'' ''2023-12'') = sgn (lexCompare ''2023-12'' ''2023-12'')
   \<and> monthly_trend (summary sampleCollate ''2026'' [] []
        [sampleGrowth ''2024-02'' ''first'', sampleGrowth ''2023-12'' ''second'',
         sampleGrowth ''2024-02'' ''third''])
     = rev (take 12 (sortByMonthDescending
        [sampleGrowth ''2024-02'' ''first'', sampleGrowth ''2023-12'' ''second'',
         sampleGrowth ''2024-02'' ''third'']))
   \<and> monthly_trend (summary sampleCollate ''2026'' [] []
        [sampleGrowth ''2024-02'' ''first'', sampleGrowth ''2023-12'' ''second'',
         sampleGrowth ''2024-02'' ''third''])
     = [sampleGrowth ''2023-12'' ''second'', sampleGrowth ''2024-02'' ''third'',
        sampleGrowth ''2024-02'' ''first'']
   \<and> sorted [''2023-12'', ''2024-02'', ''2024-02'']"
proof -
  let ?g = "[sampleGrowth ''2024-02'' ''first'', sampleGrowth ''2023-12'' ''second'',
             sampleGrowth ''2024-02'' ''third'']"
  have a: "\<forall>a\<in>set ?g. \<forall>b\<in>set ?g.
        sgn (sampleCollate (g_month a) (g_month b)) = sgn (lexCompare (g_month a) (g_month b))"
    by (simp add: sampleGrowth_def sampleCollate_months lexCompare_months)
  have e: "monthly_trend (summary sampleCollate ''2026'' [] [] ?g)
     = [sampleGrowth ''2023-12'' ''second'', sampleGrowth ''2024-02'' ''third'',
        sampleGrowth ''2024-02'' ''first'']"
    by (simp add: summary_def Let_def sortedGrowth_def sampleGrowth_def sampleCollate_months)
  from summary_monthly_trend [of sampleCollate "''2026''" "[]" "[]" ?g] a
  have t: "monthly_trend (summary sampleCollate ''2026'' [] [] ?g)
      = rev (take 12 (sortByMonthDescending ?g))"
    and s: "sorted (map g_month (monthly_trend (summary sampleCollate ''2026'' [] [] ?g)))"
    by blast+
  from s have s': "sorted [''2023-12'', ''2024-02'', ''2024-02'']"
    by (simp add: e sampleGrowth_def)
  have c: "sgn (sampleCollate ''2024-02'' ''2023-12'') = sgn (lexCompare ''2024-02'' ''2023-12'')"
    "sgn (sampleCollate ''2023-12'' ''2024-02'') = sgn (lexCompare ''2023-12'' ''2024-02'')"
    "sgn (sampleCollate ''2024-02'' ''2024-02'') = sgn (lexCompare ''2024-02'' ''2024-02'')"
    "sgn (sampleCollate ''2023-12'' ''2023-12'') = sgn (lexCompare ''2023-12'' ''2023-12'')"
    by (simp_all add: sampleCollate_months lexCompare_months)
  from c t e s' show ?thesis
    by blast
qed

text \<open>
  Where the claim as worded fails: months are read from the sheet as they are. For the
  months \<open>B\<close> and \<open>a\<close> the trend is \<open>a\<close>, \<open>B\<close>, the order of the collation, while
  sorting in descending lexicographic order and reversing gives \<open>B\<close>, \<open>a\<close>; the months
  of the trend do not ascend lexicographically.
\<close>

theorem summary_monthly_trend_counterexample:
  "monthly_trend (summary sampleCollate ''2026'' [] []
       [sampleGrowth ''B'' ''first'', sampleGrowth ''a'' ''second''])
     = [sampleGrowth ''a'' ''second'', sampleGrowth ''B'' ''first'']
   \<and> rev (take 12 (sortByMonthDescending
       [sampleGrowth ''B'' ''first'', sampleGrowth ''a'' ''second'']))
     = [sampleGrowth ''B'' ''first'', sampleGrowth ''a'' ''second'']
   \<and> \<not> sorted (map g_month (monthly_trend (summary sampleCollate ''2026'' [] []
       [sampleGrowth ''B'' ''first'', sampleGrowth ''a'' ''second''])))"
proof -
  have e: "monthly_trend (summary sampleCollate ''2026'' [] []
       [sampleGrowth ''B'' ''first'', sampleGrowth ''a'' ''second''])
     = [sampleGrowth ''a'' ''second'', sampleGrowth ''B'' ''first'']"
    by (simp add: summary_def Let_def sortedGrowth_def sampleGrowth_def sampleCollate_letters)
  have s: "rev (take 12 (sortByMonthDescending
       [sampleGrowth ''B'' ''first'', sampleGrowth ''a'' ''second'']))
     = [sampleGrowth ''B'' ''first'', sampleGrowth ''a'' ''second'']"
    by (simp add: sortByMonthDescending_def sampleGrowth_def)
  have n: "\<not> sorted (map g_month (monthly_trend (summary sampleCollate ''2026'' [] []
       [sampleGrowth ''B'' ''first'', sampleGrowth ''a'' ''second''])))"
    unfolding e by (simp add: sampleGrowth_def)
  from e s n show ?thesis
    by blast
qed

section \<open>Properties of the row store service\<close>

subsection \<open>Generated identifiers\<close>

lemma random16:
  fixes u :: real
  assumes "0 \<le> u" "u < 1"
  shows "nat \<lfloor>u * 16\<rfloor> < 16"
proof -
  from assms have "u * 16 < 16" by simp
  then have "\<lfloor>u * 16\<rfloor> < 16" by (simp add: floor_less_iff)
  then show ?thesis by linarith
qed

lemma hexDigit_lower: "v < 16 \<Longrightarrow> hexDigit v \<in> set ''0123456789abcdef''"
  unfolding hexDigit_def by (rule nth_mem) simp

lemma variant_range: "((r::nat) AND 0x3) OR 0x8 \<in> {8, 9, 10, 11}"
proof -
  have "r AND 3 = r mod 4"
    using take_bit_eq_mask [of 2 r] by (simp add: take_bit_eq_mod mask_eq_exp_minus_1)
  moreover have "r mod 4 \<in> {0, 1, 2, 3}" by auto
  ultimately have "r AND 3 \<in> {0, 1, 2, 3}" by simp
  then show ?thesis by auto
qed

lemma hexDigit_variant: "hexDigit (((r::nat) AND 0x3) OR 0x8) \<in> set ''89ab''"
  using variant_range [of r] by (auto simp: hexDigit_def)

lemma uuidChar_single:
  fixes u :: real
  assumes "0 \<le> u" "u < 1" "p = CHR ''x'' \<or> p = CHR ''y''"
  shows "\<exists>d. uuidChar p u = [d] \<and> charMatches p d"
proof (cases "p = CHR ''x''")
  case True
  with assms show ?thesis
    using random16 [of u] hexDigit_lower [of "nat \<lfloor>u * 16\<rfloor>"]
    by (simp add: uuidChar_def toString16.simps charMatches_def)
next
  case False
  with assms have p: "p = CHR ''y''" by simp
  have "(nat \<lfloor>u * 16\<rfloor> AND 0x3) OR 0x8 < 16"
    using variant_range [of "nat \<lfloor>u * 16\<rfloor>"] by auto
  then show ?thesis
    using hexDigit_variant [of "nat \<lfloor>u * 16\<rfloor>"] p
    by (simp add: uuidChar_def toString16.simps charMatches_def)
qed

text \<open>The template is its own pattern: what replaces \<open>x\<close> and \<open>y\<close> matches them.\<close>

lemma replaceXY_matches:
  assumes "\<And>n. 0 \<le> rnd n \<and> rnd n < 1"
    and "CHR ''h'' \<notin> set tmpl" "CHR ''V'' \<notin> set tmpl" "CHR ''N'' \<notin> set tmpl"
  shows "matchesPattern tmpl (replaceXY rnd n tmpl)"
  using assms(2-)
proof (induction tmpl arbitrary: n)
  case Nil
  show ?case by simp
next
  case (Cons p ps)
  then have ih: "matchesPattern ps (replaceXY rnd m ps)" for m by simp
  show ?case
  proof (cases "p = CHR ''x'' \<or> p = CHR ''y''")
    case True
    then obtain d where "uuidChar p (rnd n) = [d]" "charMatches p d"
      using uuidChar_single [of "rnd n" p] assms(1) by blast
    with True ih show ?thesis by auto
  next
    case False
    with Cons.prems have "charMatches p p" by (auto simp: charMatches_def)
    with False ih show ?thesis by simp
  qed
qed

lemma matchesPattern_weaken:
  "matchesPattern tmpl s \<Longrightarrow> list_all2 weaker tmpl pat \<Longrightarrow> matchesPattern pat s"
proof (induction tmpl s arbitrary: pat rule: matchesPattern.induct)
  case 1
  then show ?case by simp
next
  case (2 p ps c cs)
  then show ?case by (auto simp: list_all2_Cons1 weaker_def)
qed simp_all

lemma matchesPattern_length: "matchesPattern p s \<Longrightarrow> length s = length p"
  by (induction p s rule: matchesPattern.induct) simp_all

lemma weaker_chars:
  "weaker (CHR ''x'') (CHR ''h'')" "weaker (CHR ''y'') (CHR ''N'')"
  "weaker (CHR ''4'') (CHR ''V'')" "weaker (CHR ''-'') (CHR ''-'')"
  by (auto simp: weaker_def charMatches_def)

lemma template_weaker:
  "list_all2 weaker ''xxxxxxxx-xxxx-4xxx-yxxx-xxxxxxxxxxxx''
     ''hhhhhhhh-hhhh-Vhhh-Nhhh-hhhhhhhhhhhh''"
  by (simp add: weaker_chars)

lemma generateUUID_nonempty: "generateUUID rnd \<noteq> []"
  by (simp add: generateUUID_def)

lemma sampleRandom_range: "0 \<le> sampleRandom n \<and> sampleRandom n < 1"
proof -
  have "n mod 16 < 16" by simp
  then have "real (n mod 16) \<le> 15" by linarith
  then show ?thesis by (simp add: sampleRandom_def)
qed

lemma floor_sampleRandom: "nat \<lfloor>sampleRandom n * 16\<rfloor> = n mod 16"
proof -
  have "sampleRandom n * 16 = real (n mod 16) + 1 / 2"
    by (simp add: sampleRandom_def)
  then have "\<lfloor>sampleRandom n * 16\<rfloor> = int (n mod 16)" by linarith
  then show ?thesis by simp
qed

lemma three_or_eight: "Suc (Suc (Suc 0)) OR 8 = (11::nat)"
  by (simp flip: numeral_3_eq_3)

lemma generateUUID_sample:
  "generateUUID sampleRandom = ''01234567-89ab-4cde-b012-3456789abcde''"
  by (simp add: generateUUID_def uuidChar_def floor_sampleRandom toString16.simps hexDigit_def
        three_or_eight)

text \<open>
  Claim C10. Whenever the random source stays in \<open>[0, 1)\<close>, the generated identifier has
  the shape of the template: 36 characters, lower-case hexadecimal digits in groups of 8,
  4, 4, 4 and 12 separated by hyphens, \<open>4\<close> as the version digit and one of \<open>8 9 a b\<close> as
  the variant digit. So it passes the check of the \<open>id\<close> path parameter, and so does the
  identifier of every holding that \<open>addHolding\<close> creates.
\<close>

theorem generateUUID_shape:
  assumes "\<And>n. 0 \<le> rnd n \<and> rnd n < 1"
  shows "matchesPattern ''xxxxxxxx-xxxx-4xxx-yxxx-xxxxxxxxxxxx'' (generateUUID rnd)
     \<and> length (generateUUID rnd) = 36
     \<and> holdingIdSchema (generateUUID rnd)
     \<and> (random hst = rnd \<longrightarrow> holdingIdSchema (h_id (fst (addHolding hst st p))))"
proof -
  have m: "matchesPattern ''xxxxxxxx-xxxx-4xxx-yxxx-xxxxxxxxxxxx'' (generateUUID rnd)"
    unfolding generateUUID_def by (rule replaceXY_matches [OF assms]) simp_all
  from matchesPattern_length [OF m] have l: "length (generateUUID rnd) = 36"
    by simp
  from matchesPattern_weaken [OF m template_weaker] have v: "holdingIdSchema (generateUUID rnd)"
    by (simp add: holdingIdSchema_def)
  have "h_id (fst (addHolding hst st p)) = generateUUID (random hst)"
    by (simp add: addHolding_def Let_def)
  with m l v show ?thesis by simp
qed

theorem generateUUID_shape_witness:
  "generateUUID sampleRandom = ''01234567-89ab-4cde-b012-3456789abcde''
   \<and> matchesPattern ''xxxxxxxx-xxxx-4xxx-yxxx-xxxxxxxxxxxx'' ''01234567-89ab-4cde-b012-3456789abcde''
   \<and> holdingIdSchema ''01234567-89ab-4cde-b012-3456789abcde''
   \<and> holdingIdSchema (h_id (fst (addHolding sampleHost emptyService (sampleRequest None None))))"
  using generateUUID_shape [of sampleRandom sampleHost emptyService "sampleRequest None None"]
    sampleRandom_range generateUUID_sample
  by (simp add: sampleHost_def)

subsection \<open>Parsing a row\<close>

lemma whitePrefix_letter: "whitePrefix (CHR ''a'' # s) = 0" "whitePrefix (CHR ''I'' # s) = 0"
  "whitePrefix (CHR ''1'' # s) = 0" "whitePrefix [] = 0"
  by (simp_all add: whitePrefix_def)

lemma parseFloatStr_abc: "parseFloatStr ''abc'' = NaN"
  by (simp add: parseFloatStr_def trimStart_def whitePrefix_letter isDigit_def)

lemma parseFloatStr_Infinity: "parseFloatStr ''Infinity'' = Infinity"
  by (simp add: parseFloatStr_def trimStart_def whitePrefix_letter)

text \<open>A number behind a no-break space (U+00A0) and a space is read.\<close>

lemma parseFloatStr_nbsp: "parseFloatStr [CHR 0xC2, CHR 0xA0, CHR '' '', CHR ''1'', CHR ''2''] = Num 12"
proof -
  have "trimStart [CHR 0xC2, CHR 0xA0, CHR '' '', CHR ''1'', CHR ''2''] = ''12''"
    by (simp add: trimStart_def whitePrefix_def numeral_eq_Suc)
  then show ?thesis
    by (simp add: parseFloatStr_def isDigit_def digitsVal_def exponentOf_def toDouble_def)
qed

text \<open>A decimal beyond the range of the doubles reads as an infinity.\<close>

lemma parseFloatStr_overflow: "parseFloatStr ''1e999'' = Infinity"
  by (simp add: parseFloatStr_def trimStart_def whitePrefix_letter isDigit_def digitsVal_def
        exponentOf_def toDouble_def)

lemma toDouble_not_NaN: "toDouble x \<noteq> NaN"
  by (simp add: toDouble_def)

text \<open>\<^verbatim>\<open>parseFloat\<close> makes NaN of exactly the texts that are not numeric.\<close>

lemma parseFloatStr_NaN_iff: "parseFloatStr s = NaN \<longleftrightarrow> \<not> numericText s"
proof -
  have core: "(take 8 u \<noteq> ''Infinity''
       \<and> takeWhile isDigit u = []
       \<and> (if dropWhile isDigit u \<noteq> [] \<and> hd (dropWhile isDigit u) = CHR ''.''
           then takeWhile isDigit (tl (dropWhile isDigit u)) else []) = [])
      \<longleftrightarrow> \<not> startsNumber u" for u
  proof (cases u)
    case Nil
    then show ?thesis by (simp add: startsNumber_def)
  next
    case (Cons c t)
    show ?thesis
    proof (cases "isDigit c")
      case True
      with Cons show ?thesis by (simp add: startsNumber_def)
    next
      case False
      with Cons show ?thesis
        by (cases t) (auto simp: startsNumber_def)
    qed
  qed
  show ?thesis
    unfolding parseFloatStr_def numericText_def Let_def
    using core [of "if trimStart s \<noteq> [] \<and> (hd (trimStart s) = CHR ''-'' \<or> hd (trimStart s) = CHR ''+'')
                    then tl (trimStart s) else trimStart s"]
    by (auto simp: toDouble_not_NaN split: if_splits)
qed

lemma numOrZero_parseFloat:
  "missingOrNonNumeric c \<Longrightarrow> numOrZero (parseFloat c) = 0"
  by (auto simp: missingOrNonNumeric_def parseFloat_def numOrZero_def
        parseFloatStr_NaN_iff [symmetric] split: option.splits cell.splits)

text \<open>
  Claim C7, as the code has it. Parsing a row has no failing branch. A missing or
  non-numeric cell of quantity, average price, current price, value or allocation
  percentage parses to 0. A missing or empty rsi cell parses to no rsi at all. A missing
  cell of identifier, symbol, name, sector or notes parses to the empty string, and a
  missing timestamp cell to the host's current time.
\<close>

theorem parseHoldingFromRow_permissive:
  "(missingOrNonNumeric (cellAt r 4) \<longrightarrow> h_qty (parseHoldingFromRow hst r) = 0)
   \<and> (missingOrNonNumeric (cellAt r 5) \<longrightarrow> h_avg_price (parseHoldingFromRow hst r) = 0)
   \<and> (missingOrNonNumeric (cellAt r 6) \<longrightarrow> h_current_price (parseHoldingFromRow hst r) = 0)
   \<and> (missingOrNonNumeric (cellAt r 7) \<longrightarrow> h_value (parseHoldingFromRow hst r) = 0)
   \<and> (missingOrNonNumeric (cellAt r 9) \<longrightarrow> h_allocation_pct (parseHoldingFromRow hst r) = 0)
   \<and> (cellAt r 8 = None \<or> cellAt r 8 = Some (CStr [])
        \<longrightarrow> h_rsi (parseHoldingFromRow hst r) = None)
   \<and> (cellAt r 0 = None \<longrightarrow> h_id (parseHoldingFromRow hst r) = [])
   \<and> (cellAt r 1 = None \<longrightarrow> h_symbol (parseHoldingFromRow hst r) = [])
   \<and> (cellAt r 2 = None \<longrightarrow> h_name (parseHoldingFromRow hst r) = [])
   \<and> (cellAt r 3 = None \<longrightarrow> h_sector (parseHoldingFromRow hst r) = [])
   \<and> (cellAt r 10 = None \<longrightarrow> h_notes (parseHoldingFromRow hst r) = Some [])
   \<and> (cellAt r 11 = None \<longrightarrow> h_updated_at (parseHoldingFromRow hst r) = now hst)"
proof -
  have n: "h_qty (parseHoldingFromRow hst r) = numOrZero (parseFloat (cellAt r 4))"
    "h_avg_price (parseHoldingFromRow hst r) = numOrZero (parseFloat (cellAt r 5))"
    "h_current_price (parseHoldingFromRow hst r) = numOrZero (parseFloat (cellAt r 6))"
    "h_value (parseHoldingFromRow hst r) = numOrZero (parseFloat (cellAt r 7))"
    "h_allocation_pct (parseHoldingFromRow hst r) = numOrZero (parseFloat (cellAt r 9))"
    by (simp_all add: parseHoldingFromRow_def)
  have r: "cellAt r 8 = None \<or> cellAt r 8 = Some (CStr [])
        \<longrightarrow> h_rsi (parseHoldingFromRow hst r) = None"
    by (auto simp: parseHoldingFromRow_def truthy_def)
  have t: "cellAt r 0 = None \<longrightarrow> h_id (parseHoldingFromRow hst r) = []"
    "cellAt r 1 = None \<longrightarrow> h_symbol (parseHoldingFromRow hst r) = []"
    "cellAt r 2 = None \<longrightarrow> h_name (parseHoldingFromRow hst r) = []"
    "cellAt r 3 = None \<longrightarrow> h_sector (parseHoldingFromRow hst r) = []"
    "cellAt r 10 = None \<longrightarrow> h_notes (parseHoldingFromRow hst r) = Some []"
    "cellAt r 11 = None \<longrightarrow> h_updated_at (parseHoldingFromRow hst r) = now hst"
    by (simp_all add: parseHoldingFromRow_def textOr_def)
  show ?thesis
    unfolding n using r t by (simp add: numOrZero_parseFloat)
qed

theorem parseHoldingFromRow_permissive_witness:
  "parseHoldingFromRow sampleHost [] =
     \<lparr> h_id = [], h_symbol = [], h_name = [], h_sector = [], h_qty = 0, h_avg_price = 0,
       h_current_price = 0, h_value = 0, h_rsi = None, h_allocation_pct = 0,
       h_notes = Some [], h_updated_at = ''2026-11-02T09:30:00.000Z'' \<rparr>
   \<and> missingOrNonNumeric (cellAt [CStr ''k'', CStr ''ACME'', CStr ''Acme'', CStr ''tech'', CStr ''abc''] 4)
   \<and> h_qty (parseHoldingFromRow sampleHost
        [CStr ''k'', CStr ''ACME'', CStr ''Acme'', CStr ''tech'', CStr ''abc'']) = 0
   \<and> cellAt (replicate 8 (CStr ''x'') @ [CStr []]) 8 = Some (CStr [])
   \<and> h_rsi (parseHoldingFromRow sampleHost (replicate 8 (CStr ''x'') @ [CStr []])) = None"
proof -
  have m: "missingOrNonNumeric
      (cellAt [CStr ''k'', CStr ''ACME'', CStr ''Acme'', CStr ''tech'', CStr ''abc''] 4)"
    by (simp add: cellAt_def missingOrNonNumeric_def numericText_def startsNumber_def
          trimStart_def whitePrefix_letter isDigit_def)
  have c: "cellAt (replicate 8 (CStr ''x'') @ [CStr []]) 8 = Some (CStr [])"
    by (simp add: cellAt_def nth_append)
  have e: "parseHoldingFromRow sampleHost [] =
     \<lparr> h_id = [], h_symbol = [], h_name = [], h_sector = [], h_qty = 0, h_avg_price = 0,
       h_current_price = 0, h_value = 0, h_rsi = None, h_allocation_pct = 0,
       h_notes = Some [], h_updated_at = ''2026-11-02T09:30:00.000Z'' \<rparr>"
    by (simp add: parseHoldingFromRow_def cellAt_def parseFloat_def numOrZero_def truthy_def
          textOr_def sampleHost_def)
  from parseHoldingFromRow_permissive
      [of "[CStr ''k'', CStr ''ACME'', CStr ''Acme'', CStr ''tech'', CStr ''abc'']" sampleHost] m
  have q: "h_qty (parseHoldingFromRow sampleHost
        [CStr ''k'', CStr ''ACME'', CStr ''Acme'', CStr ''tech'', CStr ''abc'']) = 0"
    by blast
  from parseHoldingFromRow_permissive [of "replicate 8 (CStr ''x'') @ [CStr []]" sampleHost] c
  have "h_rsi (parseHoldingFromRow sampleHost (replicate 8 (CStr ''x'') @ [CStr []])) = None"
    by blast
  with e m q c show ?thesis
    by blast
qed

text \<open>
  Where the claim as worded fails: a row without an rsi cell, or with an empty one, has no
  rsi, not the rsi 0; a text in the rsi cell that is no number gives the rsi NaN; a
  quantity cell whose text only starts with a number gives that number, not 0; and a row
  without a timestamp cell gets the current time, not the empty string.
\<close>

theorem parseHoldingFromRow_counterexample:
  "h_rsi (parseHoldingFromRow sampleHost []) = None
   \<and> h_rsi (parseHoldingFromRow sampleHost (replicate 8 (CStr []) @ [CStr []])) = None
   \<and> h_rsi (parseHoldingFromRow sampleHost (replicate 8 (CStr []) @ [CStr ''abc''])) = Some NaN
   \<and> h_qty (parseHoldingFromRow sampleHost (replicate 4 (CStr []) @ [CStr ''12abc''])) = 12
   \<and> h_updated_at (parseHoldingFromRow sampleHost []) = ''2026-11-02T09:30:00.000Z''"
proof -
  have "parseFloatStr ''12abc'' = Num 12"
    by (simp add: parseFloatStr_def trimStart_def whitePrefix_letter isDigit_def digitsVal_def
          exponentOf_def toDouble_def)
  then show ?thesis
    by (simp add: parseHoldingFromRow_def cellAt_def truthy_def parseFloat_def parseFloatStr_abc
        textOr_def sampleHost_def nth_append numOrZero_def)
qed

subsection \<open>Creating a holding and reading it back\<close>

lemma roundtrip_row:
  assumes "h_rsi h \<noteq> Some (Num 0)" "h_rsi h \<noteq> Some NaN" "h_updated_at h \<noteq> []"
  shows "parseHoldingFromRow hst (holdingToRowValues h) =
           h\<lparr>h_notes := Some (case h_notes h of None \<Rightarrow> [] | Some n \<Rightarrow> n)\<rparr>"
proof (cases "h_rsi h")
  case None
  with assms(3) show ?thesis
    by (simp add: parseHoldingFromRow_def holdingToRowValues_def cellAt_def textOr_def
        parseFloat_def numOrZero_def rsiCell_def notesCell_def truthy_def split: option.splits)
next
  case (Some x)
  with assms show ?thesis
    by (simp add: parseHoldingFromRow_def holdingToRowValues_def cellAt_def textOr_def
        parseFloat_def numOrZero_def rsiCell_def notesCell_def truthy_def split: option.splits)
qed

lemma getHoldings_append:
  assumes "MF_STOCKS st \<noteq> []" "truthy (cellAt r 0)"
  shows "fst (getHoldings hst (st\<lparr>MF_STOCKS := MF_STOCKS st @ [r]\<rparr>)) =
         fst (getHoldings hst st) @ [parseHoldingFromRow hst r]"
proof (cases "MF_STOCKS st")
  case Nil
  with assms show ?thesis by simp
next
  case (Cons hd rest)
  then show ?thesis
    using assms(2) by (simp add: getHoldings_def logCall_def Let_def)
qed

lemma getHoldings_logCall: "fst (getHoldings hst (logCall c st)) = fst (getHoldings hst st)"
  by (simp add: getHoldings_def logCall_def Let_def)

text \<open>
  Claim C9, as the code has it. Take a create request whose rsi is absent or not 0, a
  clock whose ISO string is not empty, and a sheet that has its header row. The created
  holding carries the generated identifier and the clock's timestamp. Written to a row
  and parsed back, and likewise read back as the last entry of the list operation, it is
  the created record in every field, except that absent notes come back as the empty
  string.
\<close>

theorem create_then_list:
  assumes "c_rsi p \<noteq> Some 0" "now hst \<noteq> []" "MF_STOCKS st \<noteq> []"
  shows "parseHoldingFromRow hst' (holdingToRowValues (fst (addHolding hst st p)))
           = (fst (addHolding hst st p))
               \<lparr>h_notes := Some (case c_notes p of None \<Rightarrow> [] | Some n \<Rightarrow> n)\<rparr>
     \<and> fst (getHoldings hst' (snd (addHolding hst st p)))
           = fst (getHoldings hst' st)
             @ [(fst (addHolding hst st p))
                  \<lparr>h_notes := Some (case c_notes p of None \<Rightarrow> [] | Some n \<Rightarrow> n)\<rparr>]
     \<and> h_id (fst (addHolding hst st p)) = generateUUID (random hst)
     \<and> h_updated_at (fst (addHolding hst st p)) = now hst"
proof -
  let ?h = "fst (addHolding hst st p)"
  let ?st = "logCall (ValuesAppend (Named ''MF_STOCKS'')) st"
  have f: "h_rsi ?h = map_option Num (c_rsi p)" "h_updated_at ?h = now hst"
    "h_notes ?h = c_notes p" "h_id ?h = generateUUID (random hst)"
    by (simp_all add: addHolding_def Let_def)
  have r1: "h_rsi ?h \<noteq> Some (Num 0)" "h_rsi ?h \<noteq> Some NaN"
    using assms(1) by (cases "c_rsi p"; simp add: f)+
  have rt: "parseHoldingFromRow hst' (holdingToRowValues ?h)
      = ?h\<lparr>h_notes := Some (case c_notes p of None \<Rightarrow> [] | Some n \<Rightarrow> n)\<rparr>"
    using roundtrip_row [OF r1, of hst'] assms(2) by (simp add: f)
  have st': "snd (addHolding hst st p) = ?st\<lparr>MF_STOCKS := MF_STOCKS ?st @ [holdingToRowValues ?h]\<rparr>"
    by (simp add: addHolding_def Let_def)
  have tr: "truthy (cellAt (holdingToRowValues ?h) 0)"
    by (simp add: holdingToRowValues_def cellAt_def truthy_def f generateUUID_nonempty)
  have ne: "MF_STOCKS ?st \<noteq> []"
    using assms(3) by (simp add: logCall_def)
  have "fst (getHoldings hst' (snd (addHolding hst st p)))
      = fst (getHoldings hst' st) @ [parseHoldingFromRow hst' (holdingToRowValues ?h)]"
    unfolding st' using getHoldings_append [OF ne tr, of hst']
    by (simp add: getHoldings_logCall)
  then show ?thesis using rt f by simp
qed

theorem create_then_list_witness:
  "c_rsi (sampleRequest (Some 55) None) \<noteq> Some 0
   \<and> now sampleHost \<noteq> []
   \<and> MF_STOCKS emptyService \<noteq> []
   \<and> fst (getHoldings sampleHost
        (snd (addHolding sampleHost emptyService (sampleRequest (Some 55) None))))
     = [\<lparr> h_id = ''01234567-89ab-4cde-b012-3456789abcde'', h_symbol = ''ACME'',
          h_name = ''Acme Corp'', h_sector = ''tech'', h_qty = 4, h_avg_price = 90,
          h_current_price = 100, h_value = 400, h_rsi = Some (Num 55), h_allocation_pct = 25,
          h_notes = Some [], h_updated_at = ''2026-11-02T09:30:00.000Z'' \<rparr>]"
proof -
  have a: "c_rsi (sampleRequest (Some 55) None) \<noteq> Some 0" "now sampleHost \<noteq> []"
    "MF_STOCKS emptyService \<noteq> []"
    by (simp_all add: sampleRequest_def sampleHost_def emptyService_def)
  have g: "fst (getHoldings sampleHost emptyService) = []"
    by (simp add: getHoldings_def emptyService_def logCall_def Let_def)
  have h: "fst (addHolding sampleHost emptyService (sampleRequest (Some 55) None))
     = \<lparr> h_id = ''01234567-89ab-4cde-b012-3456789abcde'', h_symbol = ''ACME'',
          h_name = ''Acme Corp'', h_sector = ''tech'', h_qty = 4, h_avg_price = 90,
          h_current_price = 100, h_value = 400, h_rsi = Some (Num 55), h_allocation_pct = 25,
          h_notes = None, h_updated_at = ''2026-11-02T09:30:00.000Z'' \<rparr>"
    by (simp add: addHolding_def sampleRequest_def sampleHost_def generateUUID_sample Let_def)
  show ?thesis
    using create_then_list [OF a, of sampleHost] a
    by (simp add: g h) (simp add: sampleRequest_def)
qed

text \<open>
  Where the claim as worded fails: created with the valid rsi 0, the holding is listed
  with no rsi; created without notes, it is listed with the empty string as notes.
\<close>

theorem create_then_list_counterexample:
  "createHoldingSchema (sampleRequest (Some 0) (Some ''core''))
   \<and> h_rsi (fst (addHolding sampleHost emptyService (sampleRequest (Some 0) (Some ''core''))))
        = Some (Num 0)
   \<and> h_rsi (last (fst (getHoldings sampleHost
          (snd (addHolding sampleHost emptyService (sampleRequest (Some 0) (Some ''core'')))))))
        = None
   \<and> createHoldingSchema (sampleRequest (Some 55) None)
   \<and> h_notes (fst (addHolding sampleHost emptyService (sampleRequest (Some 55) None))) = None
   \<and> h_notes (last (fst (getHoldings sampleHost
          (snd (addHolding sampleHost emptyService (sampleRequest (Some 55) None))))))
        = Some []"
  by (simp add: createHoldingSchema_def sampleRequest_def addHolding_def getHoldings_def
      emptyService_def logCall_def Let_def holdingToRowValues_def rsiCell_def notesCell_def
      truthy_def cellAt_def generateUUID_nonempty parseHoldingFromRow_def textOr_def)

subsection \<open>The value of a holding\<close>

lemma parsed_numbers:
  "cellAt r 4 = Some (CNum (Num q)) \<Longrightarrow> cellAt r 6 = Some (CNum (Num c))
   \<Longrightarrow> cellAt r 7 = Some (CNum (Num v)) \<Longrightarrow>
   h_qty (parseHoldingFromRow hst r) = q \<and> h_current_price (parseHoldingFromRow hst r) = c
   \<and> h_value (parseHoldingFromRow hst r) = v"
  by (simp add: parseHoldingFromRow_def parseFloat_def numOrZero_def)

lemma row_cells:
  "cellAt (holdingToRowValues h @ rest) 4 = Some (CNum (Num (h_qty h)))"
  "cellAt (holdingToRowValues h @ rest) 6 = Some (CNum (Num (h_current_price h)))"
  "cellAt (holdingToRowValues h @ rest) 7 = Some (CNum (Num (h_value h)))"
  by (simp_all add: holdingToRowValues_def cellAt_def)

lemma persisted_parse:
  "h_qty (parseHoldingFromRow hst (holdingToRowValues h @ rest)) = h_qty h
   \<and> h_current_price (parseHoldingFromRow hst (holdingToRowValues h @ rest)) = h_current_price h
   \<and> h_value (parseHoldingFromRow hst (holdingToRowValues h @ rest)) = h_value h"
  by (rule parsed_numbers) (rule row_cells)+

lemma length_holdingToRowValues: "length (holdingToRowValues h) = 12"
  by (simp add: holdingToRowValues_def)

lemma updateHolding_Inr:
  assumes "updateHolding hst st ident u = (Inr h, st')"
  shows "\<exists>r stored. rowIndexOf (ensureRowMap st) ident = Some r
           \<and> rowAt (MF_STOCKS (ensureRowMap st)) (r - 1) = Some stored
           \<and> MF_STOCKS st' =
               (MF_STOCKS (ensureRowMap st))[r - 1 := holdingToRowValues h @ drop 12 stored]
           \<and> (u_qty u \<noteq> None \<or> u_current_price u \<noteq> None
                \<longrightarrow> h_value h = h_qty h * h_current_price h)"
  using assms
  by (auto simp: updateHolding_def Let_def logCall_def split: option.splits if_splits)

text \<open>
  Claim C8. The holding that \<open>addHolding\<close> returns has its value equal to quantity
  times current price, the row it appends is that holding's row, and the row read back
  has the same property. When \<open>updateHolding\<close> succeeds on a payload that carries a
  quantity or a current price, the holding it returns has its value equal to quantity
  times current price, the first twelve cells of the sheet row it wrote are that holding's
  row, and the row read back has the same property.
\<close>

theorem value_is_qty_times_price:
  "h_value (fst (addHolding hst st p))
       = h_qty (fst (addHolding hst st p)) * h_current_price (fst (addHolding hst st p))
   \<and> last (MF_STOCKS (snd (addHolding hst st p))) = holdingToRowValues (fst (addHolding hst st p))
   \<and> h_value (parseHoldingFromRow hst' (last (MF_STOCKS (snd (addHolding hst st p)))))
       = h_qty (parseHoldingFromRow hst' (last (MF_STOCKS (snd (addHolding hst st p)))))
         * h_current_price (parseHoldingFromRow hst' (last (MF_STOCKS (snd (addHolding hst st p)))))
   \<and> (updateHolding hst st ident u = (Inr h, st')
        \<and> (u_qty u \<noteq> None \<or> u_current_price u \<noteq> None)
        \<longrightarrow> h_value h = h_qty h * h_current_price h
          \<and> (\<exists>r. rowIndexOf (ensureRowMap st) ident = Some r
                \<and> r - 1 < length (MF_STOCKS st')
                \<and> take 12 (MF_STOCKS st' ! (r - 1)) = holdingToRowValues h
                \<and> h_value (parseHoldingFromRow hst' (MF_STOCKS st' ! (r - 1)))
                    = h_qty (parseHoldingFromRow hst' (MF_STOCKS st' ! (r - 1)))
                      * h_current_price (parseHoldingFromRow hst' (MF_STOCKS st' ! (r - 1)))))"
proof -
  let ?h = "fst (addHolding hst st p)"
  have a1: "h_value ?h = h_qty ?h * h_current_price ?h"
    by (simp add: addHolding_def Let_def)
  have a2: "last (MF_STOCKS (snd (addHolding hst st p))) = holdingToRowValues ?h"
    by (simp add: addHolding_def Let_def)
  have a3: "h_value (parseHoldingFromRow hst' (holdingToRowValues ?h))
       = h_qty (parseHoldingFromRow hst' (holdingToRowValues ?h))
         * h_current_price (parseHoldingFromRow hst' (holdingToRowValues ?h))"
    using persisted_parse [of hst' ?h "[]"] a1 by simp
  have b: "h_value h = h_qty h * h_current_price h
          \<and> (\<exists>r. rowIndexOf (ensureRowMap st) ident = Some r
                \<and> r - 1 < length (MF_STOCKS st')
                \<and> take 12 (MF_STOCKS st' ! (r - 1)) = holdingToRowValues h
                \<and> h_value (parseHoldingFromRow hst' (MF_STOCKS st' ! (r - 1)))
                    = h_qty (parseHoldingFromRow hst' (MF_STOCKS st' ! (r - 1)))
                      * h_current_price (parseHoldingFromRow hst' (MF_STOCKS st' ! (r - 1))))"
    if u: "updateHolding hst st ident u = (Inr h, st')"
      and q: "u_qty u \<noteq> None \<or> u_current_price u \<noteq> None"
  proof -
    from updateHolding_Inr [OF u] q obtain r stored where
      r: "rowIndexOf (ensureRowMap st) ident = Some r"
      and s: "rowAt (MF_STOCKS (ensureRowMap st)) (r - 1) = Some stored"
      and m: "MF_STOCKS st' =
                (MF_STOCKS (ensureRowMap st))[r - 1 := holdingToRowValues h @ drop 12 stored]"
      and v: "h_value h = h_qty h * h_current_price h"
      by blast
    from s have lt: "r - 1 < length (MF_STOCKS (ensureRowMap st))"
      by (simp add: rowAt_def split: if_splits)
    then have row: "MF_STOCKS st' ! (r - 1) = holdingToRowValues h @ drop 12 stored"
      by (simp add: m)
    have "take 12 (MF_STOCKS st' ! (r - 1)) = holdingToRowValues h"
      unfolding row by (simp add: length_holdingToRowValues)
    moreover have "r - 1 < length (MF_STOCKS st')"
      using lt by (simp add: m)
    moreover have "h_value (parseHoldingFromRow hst' (MF_STOCKS st' ! (r - 1)))
                    = h_qty (parseHoldingFromRow hst' (MF_STOCKS st' ! (r - 1)))
                      * h_current_price (parseHoldingFromRow hst' (MF_STOCKS st' ! (r - 1)))"
      unfolding row using persisted_parse [of hst' h "drop 12 stored"] v by simp
    ultimately show ?thesis using r v by blast
  qed
  show ?thesis using a1 a2 a3 b by (simp add: a2)
qed

lemma oneHolding_eq:
  "oneHolding = \<lparr> MF_STOCKS = [headerRow,
       [CStr ''01234567-89ab-4cde-b012-3456789abcde'', CStr ''ACME'', CStr ''Acme Corp'',
        CStr ''tech'', CNum (Num 4), CNum (Num 90), CNum (Num 100), CNum (Num 400),
        CNum (Num 55), CNum (Num 25), CStr ''core'',
        CStr ''2026-11-02T09:30:00.000Z'']],
      IDEAL_ALLOCATION = [], SNAPSHOT = [], holdingsRowMap = [],
      calls = [ValuesAppend (Named ''MF_STOCKS'')] \<rparr>"
  by (simp add: oneHolding_def addHolding_def sampleHost_def emptyService_def sampleRequest_def
      generateUUID_sample holdingToRowValues_def rsiCell_def notesCell_def logCall_def Let_def)

lemma updateHolding_sample:
  "fst (updateHolding sampleHost oneHolding ''01234567-89ab-4cde-b012-3456789abcde'' sampleUpdate)
    = Inr \<lparr> h_id = ''01234567-89ab-4cde-b012-3456789abcde'', h_symbol = ''ACME'',
        h_name = ''Acme Corp'', h_sector = ''tech'', h_qty = 10, h_avg_price = 90,
        h_current_price = 100, h_value = 1000, h_rsi = Some (Num 55), h_allocation_pct = 25,
        h_notes = Some ''core'', h_updated_at = ''2026-11-02T09:30:00.000Z'' \<rparr>"
  by (simp add: oneHolding_eq updateHolding_def ensureRowMap_def initializeHoldingsRowMap_def
      setRowsFrom_def logCall_def Let_def rowIndexOf_def rowAt_def truthy_def cellAt_def
      headerRow_def parseHoldingFromRow_def textOr_def parseFloat_def numOrZero_def
      applyUpdates_def orElse_def sampleUpdate_def sampleHost_def upt_conv_Cons)

theorem value_is_qty_times_price_witness:
  "fst (updateHolding sampleHost oneHolding ''01234567-89ab-4cde-b012-3456789abcde'' sampleUpdate)
    = Inr \<lparr> h_id = ''01234567-89ab-4cde-b012-3456789abcde'', h_symbol = ''ACME'',
        h_name = ''Acme Corp'', h_sector = ''tech'', h_qty = 10, h_avg_price = 90,
        h_current_price = 100, h_value = 1000, h_rsi = Some (Num 55), h_allocation_pct = 25,
        h_notes = Some ''core'', h_updated_at = ''2026-11-02T09:30:00.000Z'' \<rparr>
   \<and> u_qty sampleUpdate = Some 10
   \<and> (\<exists>r. rowIndexOf (ensureRowMap oneHolding) ''01234567-89ab-4cde-b012-3456789abcde'' = Some r
         \<and> take 12 (MF_STOCKS (snd (updateHolding sampleHost oneHolding
                ''01234567-89ab-4cde-b012-3456789abcde'' sampleUpdate)) ! (r - 1))
           = holdingToRowValues
               \<lparr> h_id = ''01234567-89ab-4cde-b012-3456789abcde'', h_symbol = ''ACME'',
                 h_name = ''Acme Corp'', h_sector = ''tech'', h_qty = 10, h_avg_price = 90,
                 h_current_price = 100, h_value = 1000, h_rsi = Some (Num 55),
                 h_allocation_pct = 25, h_notes = Some ''core'',
                 h_updated_at = ''2026-11-02T09:30:00.000Z'' \<rparr>)"
proof -
  let ?h = "\<lparr> h_id = ''01234567-89ab-4cde-b012-3456789abcde'', h_symbol = ''ACME'',
        h_name = ''Acme Corp'', h_sector = ''tech'', h_qty = 10, h_avg_price = 90,
        h_current_price = 100, h_value = 1000, h_rsi = Some (Num 55), h_allocation_pct = 25,
        h_notes = Some ''core'', h_updated_at = ''2026-11-02T09:30:00.000Z'' \<rparr>"
  let ?st = "snd (updateHolding sampleHost oneHolding
                ''01234567-89ab-4cde-b012-3456789abcde'' sampleUpdate)"
  have u: "updateHolding sampleHost oneHolding ''01234567-89ab-4cde-b012-3456789abcde''
             sampleUpdate = (Inr ?h, ?st)"
    using updateHolding_sample by (simp add: prod_eq_iff)
  have q: "u_qty sampleUpdate = Some 10"
    by (simp add: sampleUpdate_def)
  from value_is_qty_times_price
         [of sampleHost oneHolding "sampleRequest None None" sampleHost
             "''01234567-89ab-4cde-b012-3456789abcde''" sampleUpdate ?h ?st]
       u q
  have "\<exists>r. rowIndexOf (ensureRowMap oneHolding) ''01234567-89ab-4cde-b012-3456789abcde'' = Some r
         \<and> take 12 (MF_STOCKS ?st ! (r - 1)) = holdingToRowValues ?h"
    by auto
  with updateHolding_sample q show ?thesis by simp
qed

subsection \<open>The row map\<close>

lemma rebuilds_append: "rebuilds (xs @ ys) = rebuilds xs + rebuilds ys"
  by (simp add: rebuilds_def)

lemma calls_initializeHoldingsRowMap:
  "calls (initializeHoldingsRowMap st) = calls st @ [ValuesGet (Named ''MF_STOCKS'')]"
  by (simp add: initializeHoldingsRowMap_def logCall_def Let_def)

lemma calls_ensureRowMap:
  "calls (ensureRowMap st) =
     calls st @ (if holdingsRowMap st = [] then [ValuesGet (Named ''MF_STOCKS'')] else [])"
  by (simp add: ensureRowMap_def calls_initializeHoldingsRowMap)

lemma updateHolding_calls:
  "\<exists>rest. calls (snd (updateHolding hst st ident u)) = calls (ensureRowMap st) @ rest
      \<and> rebuilds rest = 0"
  by (simp add: updateHolding_def Let_def logCall_def rebuilds_def split: option.splits)

lemma deleteHolding_calls:
  "\<exists>rest. calls (snd (deleteHolding st ident)) = calls (ensureRowMap st) @ rest
      \<and> rebuilds rest = 0"
  by (simp add: deleteHolding_def Let_def logCall_def rebuilds_def split: option.splits)

lemma updateHolding_rebuilds:
  "rebuilds (calls (snd (updateHolding hst st ident u)))
     = rebuilds (calls st) + (if holdingsRowMap st = [] then 1 else 0)"
proof -
  obtain rest where
    "calls (snd (updateHolding hst st ident u)) = calls (ensureRowMap st) @ rest"
    "rebuilds rest = 0"
    using updateHolding_calls by blast
  then show ?thesis
    by (simp add: rebuilds_append calls_ensureRowMap) (simp add: rebuilds_def)
qed

lemma deleteHolding_rebuilds:
  "rebuilds (calls (snd (deleteHolding st ident)))
     = rebuilds (calls st) + (if holdingsRowMap st = [] then 1 else 0)"
proof -
  obtain rest where
    "calls (snd (deleteHolding st ident)) = calls (ensureRowMap st) @ rest"
    "rebuilds rest = 0"
    using deleteHolding_calls by blast
  then show ?thesis
    by (simp add: rebuilds_append calls_ensureRowMap) (simp add: rebuilds_def)
qed

lemma miss_nonempty:
  assumes "map_of (holdingsRowMap st) (CStr ident) = None" "holdingsRowMap st \<noteq> []"
  shows "updateHolding hst st ident u = (Inl (HoldingNotFound ident), st)"
    and "deleteHolding st ident = (Inl (HoldingNotFound ident), st)"
  using assms
  by (simp_all add: updateHolding_def deleteHolding_def ensureRowMap_def rowIndexOf_def)

text \<open>The keys of a rebuilt row map are identifiers stored in the sheet.\<close>

lemma setRows_keys:
  "fst ` set (foldl (\<lambda>acc i. if truthy (cellAt (rows ! i) 0)
                     then AList.update (rows ! i ! 0) (i + 1) acc else acc) m is)
   \<subseteq> fst ` set m \<union> {rows ! i ! 0 | i. i \<in> set is \<and> truthy (cellAt (rows ! i) 0)}"
proof -
  define step where "step = (\<lambda>acc i. if truthy (cellAt (rows ! i) 0)
                     then AList.update (rows ! i ! 0) (i + 1) acc else acc)"
  define K where "K = (\<lambda>I. {rows ! i ! 0 | i. i \<in> I \<and> truthy (cellAt (rows ! i) 0)})"
  have one: "fst ` set (step m i) \<subseteq> fst ` set m \<union> K {i}" for m i
    by (auto simp: step_def K_def dom_update)
  have split: "K (set (i # js)) = K {i} \<union> K (set js)" for i js
    by (auto simp: K_def)
  have "fst ` set (foldl step m is) \<subseteq> fst ` set m \<union> K (set is)"
  proof (induction "is" arbitrary: m)
    case Nil
    show ?case by simp
  next
    case (Cons i js)
    have "fst ` set (foldl step (step m i) js) \<subseteq> fst ` set (step m i) \<union> K (set js)"
      by (rule Cons.IH)
    also have "\<dots> \<subseteq> (fst ` set m \<union> K {i}) \<union> K (set js)"
      using one [of m i] by (rule Un_mono) (rule subset_refl)
    also have "\<dots> = fst ` set m \<union> K (set (i # js))"
      unfolding split by (rule Un_assoc)
    finally show ?case by (simp only: foldl_Cons)
  qed
  then show ?thesis by (simp only: step_def K_def)
qed

lemma setRowsFrom_keys:
  "fst ` set (setRowsFrom rows []) \<subseteq>
     set (map (\<lambda>r. r ! 0) (filter (\<lambda>r. truthy (cellAt r 0)) (tl rows)))"
proof
  fix k
  assume "k \<in> fst ` set (setRowsFrom rows [])"
  with setRows_keys [of rows "[]" "[1 ..< length rows]"]
  obtain i where i: "k = rows ! i ! 0" "i \<in> set [1 ..< length rows]"
      "truthy (cellAt (rows ! i) 0)"
    unfolding setRowsFrom_def by auto
  then obtain j where j: "i = Suc j" "j < length (tl rows)"
    by (cases i) auto
  then have "tl rows ! j \<in> set (tl rows)" by simp
  then have "rows ! i \<in> set (tl rows)" using j by (simp add: nth_tl)
  with i show "k \<in> set (map (\<lambda>r. r ! 0) (filter (\<lambda>r. truthy (cellAt r 0)) (tl rows)))"
    by auto
qed

lemma initializeHoldingsRowMap_miss:
  assumes "CStr ident \<notin> storedIds st"
  shows "rowIndexOf (initializeHoldingsRowMap st) ident = None"
proof -
  have "CStr ident \<notin> fst ` set (setRowsFrom (MF_STOCKS st) [])"
    using assms setRowsFrom_keys [of "MF_STOCKS st"] by (auto simp: storedIds_def)
  then have "map_of (setRowsFrom (MF_STOCKS st) []) (CStr ident) = None"
    by (simp add: map_of_eq_None_iff)
  then show ?thesis
    by (simp add: rowIndexOf_def initializeHoldingsRowMap_def logCall_def Let_def)
qed

lemma miss_empty:
  assumes "holdingsRowMap st = []" "CStr ident \<notin> storedIds st"
  shows "updateHolding hst st ident u = (Inl (HoldingNotFound ident), initializeHoldingsRowMap st)"
    and "deleteHolding st ident = (Inl (HoldingNotFound ident), initializeHoldingsRowMap st)"
  using assms initializeHoldingsRowMap_miss [OF assms(2)]
  by (simp_all add: updateHolding_def deleteHolding_def ensureRowMap_def)

subsection \<open>Runs of the service on a sheet of five holdings\<close>

lemma holdingRow_eq:
  "holdingRow ident = [CStr ident, CStr ''SYM'', CStr ''Sample'', CStr ''tech'', CNum (Num 4),
     CNum (Num 90), CNum (Num 100), CNum (Num 400), CStr [], CNum (Num 10), CStr [],
     CStr ''2026-11-02T09:30:00.000Z'']"
  by (simp add: holdingRow_def holdingToRowValues_def sampleHolding_def rsiCell_def notesCell_def)

lemma truthy_holdingRow: "truthy (cellAt (holdingRow (c # cs)) 0)"
  by (simp add: holdingRow_eq truthy_def cellAt_def)

lemma holdingRow_id: "holdingRow ident ! 0 = CStr ident"
  by (simp add: holdingRow_eq)

lemma fiveHoldings_indices: "[1 ..< length (MF_STOCKS fiveHoldings)] = [1, 2, 3, 4, 5]"
  by (simp add: fiveHoldings_def upt_conv_Cons)

lemma fiveHoldings_rowMap:
  "setRowsFrom (MF_STOCKS fiveHoldings) [] =
   [(CStr ''00000000-0000-4000-8000-00000000000a'', 2),
    (CStr ''00000000-0000-4000-8000-00000000000b'', 3),
    (CStr ''00000000-0000-4000-8000-00000000000c'', 4),
    (CStr ''00000000-0000-4000-8000-00000000000d'', 5),
    (CStr ''00000000-0000-4000-8000-00000000000e'', 6)]"
  unfolding setRowsFrom_def fiveHoldings_indices
  by (simp add: fiveHoldings_def truthy_holdingRow holdingRow_id)

lemma fiveHoldings_fields:
  "holdingsRowMap fiveHoldings = []" "calls fiveHoldings = []"
  "length (MF_STOCKS fiveHoldings) = 6"
  by (simp_all add: fiveHoldings_def)

lemma ensureRowMap_fiveHoldings:
  "ensureRowMap fiveHoldings = fiveHoldings
     \<lparr> holdingsRowMap :=
         [(CStr ''00000000-0000-4000-8000-00000000000a'', 2),
          (CStr ''00000000-0000-4000-8000-00000000000b'', 3),
          (CStr ''00000000-0000-4000-8000-00000000000c'', 4),
          (CStr ''00000000-0000-4000-8000-00000000000d'', 5),
          (CStr ''00000000-0000-4000-8000-00000000000e'', 6)],
       calls := [ValuesGet (Named ''MF_STOCKS'')] \<rparr>"
  by (simp add: ensureRowMap_def initializeHoldingsRowMap_def logCall_def Let_def
      fiveHoldings_rowMap fiveHoldings_fields)

lemma listedHoldings_eq:
  "listedHoldings = fiveHoldings
     \<lparr> holdingsRowMap :=
         [(CStr ''00000000-0000-4000-8000-00000000000a'', 2),
          (CStr ''00000000-0000-4000-8000-00000000000b'', 3),
          (CStr ''00000000-0000-4000-8000-00000000000c'', 4),
          (CStr ''00000000-0000-4000-8000-00000000000d'', 5),
          (CStr ''00000000-0000-4000-8000-00000000000e'', 6)],
       calls := [ValuesGet (Named ''MF_STOCKS'')] \<rparr>"
  by (simp add: listedHoldings_def getHoldings_def logCall_def Let_def fiveHoldings_rowMap
      fiveHoldings_fields)

lemma afterFirstDelete_eq:
  "afterFirstDelete =
     \<lparr> MF_STOCKS = headerRow # map holdingRow
         [''00000000-0000-4000-8000-00000000000b'', ''00000000-0000-4000-8000-00000000000c'',
          ''00000000-0000-4000-8000-00000000000d'', ''00000000-0000-4000-8000-00000000000e''],
       IDEAL_ALLOCATION = [], SNAPSHOT = [],
       holdingsRowMap = [(CStr ''00000000-0000-4000-8000-00000000000b'', 3),
                         (CStr ''00000000-0000-4000-8000-00000000000c'', 4),
                         (CStr ''00000000-0000-4000-8000-00000000000d'', 5),
                         (CStr ''00000000-0000-4000-8000-00000000000e'', 6)],
       calls = [ValuesGet (Named ''MF_STOCKS''), SpreadsheetsGet, BatchUpdateDelete 1 2] \<rparr>"
  unfolding afterFirstDelete_def deleteHolding_def ensureRowMap_fiveHoldings
  by (simp add: rowIndexOf_def logCall_def Let_def deleteRows_def fiveHoldings_def)

lemma afterSecondDelete_eq:
  "afterSecondDelete =
     \<lparr> MF_STOCKS = headerRow # map holdingRow
         [''00000000-0000-4000-8000-00000000000b'', ''00000000-0000-4000-8000-00000000000d'',
          ''00000000-0000-4000-8000-00000000000e''],
       IDEAL_ALLOCATION = [], SNAPSHOT = [],
       holdingsRowMap = [(CStr ''00000000-0000-4000-8000-00000000000c'', 4),
                         (CStr ''00000000-0000-4000-8000-00000000000d'', 5),
                         (CStr ''00000000-0000-4000-8000-00000000000e'', 6)],
       calls = [ValuesGet (Named ''MF_STOCKS''), SpreadsheetsGet, BatchUpdateDelete 1 2,
                SpreadsheetsGet, BatchUpdateDelete 2 3] \<rparr>"
  unfolding afterSecondDelete_def afterFirstDelete_eq
  by (simp add: deleteHolding_def ensureRowMap_def rowIndexOf_def logCall_def Let_def deleteRows_def)

lemma storedIds_fiveHoldings:
  "CStr ''00000000-0000-4000-8000-00000000000f'' \<notin> storedIds fiveHoldings"
  by (simp add: storedIds_def fiveHoldings_def truthy_holdingRow holdingRow_id)

text \<open>
  Claim C5, as the code has it. A call of \<open>updateHolding\<close> or \<open>deleteHolding\<close>
  re-reads the holdings range exactly when the row map is empty on entry, and then once.
  An identifier missing from a non-empty row map is reported not found with no call to
  the store at all. With an empty row map, an identifier that is not stored is reported
  not found right after the one rebuild.
\<close>

theorem rowMap_rebuild_policy:
  "rebuilds (calls (snd (updateHolding hst st ident u)))
     = rebuilds (calls st) + (if holdingsRowMap st = [] then 1 else 0)
   \<and> rebuilds (calls (snd (deleteHolding st ident)))
     = rebuilds (calls st) + (if holdingsRowMap st = [] then 1 else 0)
   \<and> (map_of (holdingsRowMap st) (CStr ident) = None \<and> holdingsRowMap st \<noteq> []
        \<longrightarrow> updateHolding hst st ident u = (Inl (HoldingNotFound ident), st)
          \<and> deleteHolding st ident = (Inl (HoldingNotFound ident), st))
   \<and> (holdingsRowMap st = [] \<and> CStr ident \<notin> storedIds st
        \<longrightarrow> updateHolding hst st ident u
              = (Inl (HoldingNotFound ident), initializeHoldingsRowMap st)
          \<and> deleteHolding st ident = (Inl (HoldingNotFound ident), initializeHoldingsRowMap st)
          \<and> calls (initializeHoldingsRowMap st) = calls st @ [ValuesGet (Named ''MF_STOCKS'')])"
  using updateHolding_rebuilds [of hst st ident u] deleteHolding_rebuilds [of st ident]
    miss_nonempty(1) [of st ident hst u] miss_nonempty(2) [of st ident]
    miss_empty(1) [of st ident hst u] miss_empty(2) [of st ident]
    calls_initializeHoldingsRowMap [of st]
  by blast

theorem rowMap_rebuild_policy_witness:
  "map_of (holdingsRowMap afterSecondDelete) (CStr ''00000000-0000-4000-8000-00000000000a'') = None
   \<and> holdingsRowMap afterSecondDelete \<noteq> []
   \<and> deleteHolding afterSecondDelete ''00000000-0000-4000-8000-00000000000a''
       = (Inl (HoldingNotFound ''00000000-0000-4000-8000-00000000000a''), afterSecondDelete)
   \<and> holdingsRowMap fiveHoldings = []
   \<and> CStr ''00000000-0000-4000-8000-00000000000f'' \<notin> storedIds fiveHoldings
   \<and> fst (deleteHolding fiveHoldings ''00000000-0000-4000-8000-00000000000f'')
       = Inl (HoldingNotFound ''00000000-0000-4000-8000-00000000000f'')
   \<and> calls (snd (deleteHolding fiveHoldings ''00000000-0000-4000-8000-00000000000f''))
       = [ValuesGet (Named ''MF_STOCKS'')]"
proof -
  have a: "map_of (holdingsRowMap afterSecondDelete) (CStr ''00000000-0000-4000-8000-00000000000a'') = None"
    "holdingsRowMap afterSecondDelete \<noteq> []"
    by (simp_all add: afterSecondDelete_eq)
  have b: "holdingsRowMap fiveHoldings = []" "calls fiveHoldings = []"
    by (rule fiveHoldings_fields)+
  note c = storedIds_fiveHoldings
  from rowMap_rebuild_policy
         [of sampleHost afterSecondDelete "''00000000-0000-4000-8000-00000000000a''" sampleUpdate] a
  have 1: "deleteHolding afterSecondDelete ''00000000-0000-4000-8000-00000000000a''
       = (Inl (HoldingNotFound ''00000000-0000-4000-8000-00000000000a''), afterSecondDelete)"
    by blast
  from rowMap_rebuild_policy
         [of sampleHost fiveHoldings "''00000000-0000-4000-8000-00000000000f''" sampleUpdate] b(1) c
  have 2: "deleteHolding fiveHoldings ''00000000-0000-4000-8000-00000000000f''
       = (Inl (HoldingNotFound ''00000000-0000-4000-8000-00000000000f''),
          initializeHoldingsRowMap fiveHoldings)"
    and 3: "calls (initializeHoldingsRowMap fiveHoldings)
       = calls fiveHoldings @ [ValuesGet (Named ''MF_STOCKS'')]"
    by blast+
  show ?thesis
    using a b(1) c 1 by (simp add: 2 3 b(2))
qed

text \<open>
  Where the claim as worded fails: after the holdings have been listed the row map is
  not empty, and a request for an identifier it lacks is answered not found with the call
  log unchanged, so with no rebuild attempt.
\<close>

theorem rowMap_rebuild_counterexample:
  "map_of (holdingsRowMap listedHoldings) (CStr ''00000000-0000-4000-8000-00000000000f'') = None
   \<and> deleteHolding listedHoldings ''00000000-0000-4000-8000-00000000000f''
       = (Inl (HoldingNotFound ''00000000-0000-4000-8000-00000000000f''), listedHoldings)
   \<and> updateHolding sampleHost listedHoldings ''00000000-0000-4000-8000-00000000000f'' sampleUpdate
       = (Inl (HoldingNotFound ''00000000-0000-4000-8000-00000000000f''), listedHoldings)
   \<and> rebuilds (calls (snd (deleteHolding listedHoldings ''00000000-0000-4000-8000-00000000000f'')))
       = rebuilds (calls listedHoldings)"
proof -
  have a: "map_of (holdingsRowMap listedHoldings) (CStr ''00000000-0000-4000-8000-00000000000f'') = None"
    "holdingsRowMap listedHoldings \<noteq> []"
    by (simp_all add: listedHoldings_eq)
  then show ?thesis
    by (simp add: deleteHolding_def updateHolding_def ensureRowMap_def rowIndexOf_def)
qed

text \<open>
  Claim C6 at a failing input. A service that has just started receives three delete
  requests, for the holdings \<open>a\<close>, \<open>b\<close> and \<open>c\<close> of a sheet of five. The first
  rebuilds the row map and removes the row of \<open>a\<close>; the rows below move up, the row map
  keeps their old positions. The second, for \<open>b\<close>, therefore removes the row of \<open>c\<close>.
  When the third arrives, \<open>c\<close> is no longer stored and \<open>b\<close>, \<open>d\<close>, \<open>e\<close> are; the
  request succeeds and removes the row of \<open>e\<close>.
\<close>

theorem deleteHolding_missing_removes_row:
  "firstCells afterSecondDelete =
     [CStr ''id'', CStr ''00000000-0000-4000-8000-00000000000b'',
      CStr ''00000000-0000-4000-8000-00000000000d'', CStr ''00000000-0000-4000-8000-00000000000e'']
   \<and> CStr ''00000000-0000-4000-8000-00000000000c'' \<notin> storedIds afterSecondDelete
   \<and> fst (deleteHolding afterSecondDelete ''00000000-0000-4000-8000-00000000000c'') = Inr ()
   \<and> firstCells (snd (deleteHolding afterSecondDelete ''00000000-0000-4000-8000-00000000000c'')) =
     [CStr ''id'', CStr ''00000000-0000-4000-8000-00000000000b'',
      CStr ''00000000-0000-4000-8000-00000000000d'']"
  unfolding afterSecondDelete_eq
  by (simp add: firstCells_def storedIds_def truthy_holdingRow deleteHolding_def ensureRowMap_def
      rowIndexOf_def logCall_def Let_def deleteRows_def holdingRow_id headerRow_def)

end
